theory Spec2Isabelle
  imports Main
begin

section \<open>Values, errors and the host language\<close>

text \<open>
  The engine handles values of any shape: the caller's input, parsed JSON documents, the
  literals of a pipeline definition. They are Python's \<open>None\<close>, booleans, unbounded
  integers, floats, strings, lists and dictionaries with string keys. A dictionary is an
  association list in insertion order that lists each key once. The float type is a
  parameter \<open>'f\<close>: nothing here depends on how a float is represented.
\<close>

datatype 'f pyval =
    PNone
  | PBool bool
  | PInt int
  | PFloat 'f
  | PStr string
  | PList "'f pyval list"
  | PDict "(string \<times> 'f pyval) list"

type_synonym 'f pydict = "(string \<times> 'f pyval) list"

text \<open>
  The exceptions the engine can meet. \<open>NoCapabilityAvailable\<close> is the
  \<open>ValueError("Cannot find a model for request ...")\<close> of \<open>QuerySender.execute\<close>, with
  the requested model; \<open>BackendRequestError\<close> is any failure of an HTTP request that is
  not a poll (\<open>raise_for_status\<close>, a network error, a body that is not JSON).
  \<open>RecursionError\<close> is what \<open>json.loads\<close> raises on a text nested too deeply.
\<close>

datatype error =
    TypeError
  | KeyError
  | ValueError
  | OverflowError
  | JSONDecodeError
  | RecursionError
  | NoCapabilityAvailable string
  | BackendRequestError

datatype 'f num = NInt int | NFloat 'f

text \<open>
  What the engine takes from Python and its libraries without defining it: object
  identity (\<open>is\<close>), order and equality where a float takes part, the text of a float
  and the \<open>repr\<close> of a string, \<open>float(...)\<close>, \<open>0.0\<close>, \<open>json.loads\<close>, and the
  interpreter's limit on the digits of an integer turned into text
  (\<open>sys.get_int_max_str_digits()\<close>: 4300 unless configured, 0 for no limit). They are
  fields of a record that every operation using them receives.
\<close>

record 'f host =
  is_same :: "'f pyval \<Rightarrow> 'f pyval \<Rightarrow> bool"
  float_lt :: "'f num \<Rightarrow> 'f num \<Rightarrow> bool"
  float_eq :: "'f num \<Rightarrow> 'f num \<Rightarrow> bool"
  float_repr :: "'f \<Rightarrow> string"
  str_repr :: "string \<Rightarrow> string"
  to_float :: "'f pyval \<Rightarrow> error + 'f"
  float_zero :: "'f"
  json_loads :: "string \<Rightarrow> error + 'f pyval"
  int_max_str_digits :: nat

subsection \<open>Strings\<close>

text \<open>\<open>s.split(sep)\<close> for a one-character separator: never the empty list.\<close>

fun split_on :: "char \<Rightarrow> string \<Rightarrow> string list" where
  "split_on sep [] = [[]]"
| "split_on sep (c # cs) =
     (if c = sep then [] # split_on sep cs
      else (case split_on sep cs of
              [] \<Rightarrow> [[c]]
            | w # ws \<Rightarrow> (c # w) # ws))"

text \<open>\<open>s.strip(ch)\<close> for a one-character set: drops the leading and trailing copies.\<close>

definition strip_char :: "char \<Rightarrow> string \<Rightarrow> string" where
  "strip_char ch s = rev (dropWhile (\<lambda>c. c = ch) (rev (dropWhile (\<lambda>c. c = ch) s)))"

fun startswith :: "string \<Rightarrow> string \<Rightarrow> bool" where
  "startswith s [] = True"
| "startswith [] (p # ps) = False"
| "startswith (c # cs) (p # ps) = (c = p \<and> startswith cs ps)"

text \<open>\<open>t in s\<close> for two strings: \<open>t\<close> occurs in \<open>s\<close> as a contiguous run.\<close>

fun is_substring :: "string \<Rightarrow> string \<Rightarrow> bool" where
  "is_substring t [] = (t = [])"
| "is_substring t (c # cs) = (startswith (c # cs) t \<or> is_substring t cs)"

text \<open>The order of \<open>str\<close>: lexicographic on the code points.\<close>

fun str_lt :: "string \<Rightarrow> string \<Rightarrow> bool" where
  "str_lt [] t = (t \<noteq> [])"
| "str_lt (c # s) [] = False"
| "str_lt (c # s) (d # t) =
     (if c = d then str_lt s t else (of_char c :: nat) < of_char d)"

text \<open>
  \<open>s.lower()\<close> on the letters \<open>A\<close> to \<open>Z\<close>; every other character is kept. The
  engine only compares the result with words in lower-case ASCII letters.
\<close>

definition lower_char :: "char \<Rightarrow> char" where
  "lower_char c =
     (if (65::nat) \<le> of_char c \<and> (of_char c :: nat) \<le> 90
      then char_of ((of_char c :: nat) + 32) else c)"

definition lower :: "string \<Rightarrow> string" where
  "lower s = map lower_char s"

text \<open>The decimal text of an integer, as \<open>str\<close> gives it.\<close>

fun digits :: "nat \<Rightarrow> string" where
  "digits n =
     (if n < 10 then [char_of (48 + n)]
      else digits (n div 10) @ [char_of (48 + n mod 10)])"

definition int_str :: "int \<Rightarrow> string" where
  "int_str i = (if i < 0 then CHR ''-'' # digits (nat (- i)) else digits (nat i))"

subsection \<open>Dictionaries\<close>

text \<open>\<open>d[k] = v\<close>: a key already present keeps its place.\<close>

fun dict_set :: "string \<Rightarrow> 'v \<Rightarrow> (string \<times> 'v) list \<Rightarrow> (string \<times> 'v) list" where
  "dict_set k v [] = [(k, v)]"
| "dict_set k v ((k', v') # kvs) =
     (if k' = k then (k, v) # kvs else (k', v') # dict_set k v kvs)"

text \<open>
  \<open>x[key]\<close> for a string key: \<open>KeyError\<close> on a dictionary without the key,
  \<open>TypeError\<close> on anything that is not a dictionary.
\<close>

fun getitem :: "'f pyval \<Rightarrow> string \<Rightarrow> error + 'f pyval" where
  "getitem (PDict kvs) key =
     (case map_of kvs key of None \<Rightarrow> Inl KeyError | Some v \<Rightarrow> Inr v)"
| "getitem v key = Inl TypeError"

section \<open>Dot-path lookup\<close>

text \<open>
  \<open>PipelineExecutor._lookup_path\<close>: walks the keys of \<open>path.split(".")\<close>; a value that
  is not a dictionary, or a key it does not have, ends the walk with \<open>None\<close>.
\<close>

fun lookup_keys :: "'f pyval \<Rightarrow> string list \<Rightarrow> 'f pyval" where
  "lookup_keys current_val [] = current_val"
| "lookup_keys current_val (key # keys) =
     (case current_val of
        PDict kvs \<Rightarrow>
          (case map_of kvs key of
             Some v \<Rightarrow> lookup_keys v keys
           | None \<Rightarrow> PNone)
      | _ \<Rightarrow> PNone)"

definition lookup_path :: "'f pyval \<Rightarrow> string \<Rightarrow> 'f pyval" where
  "lookup_path data path = lookup_keys data (split_on (CHR ''.'') path)"

section \<open>Text, equality, order and membership of values\<close>

text \<open>
  \<open>repr(v)\<close>; the text of a float and the quoting of a string are the host's.
\<close>

fun py_repr :: "'f host \<Rightarrow> 'f pyval \<Rightarrow> string"
  and repr_items :: "'f host \<Rightarrow> 'f pyval list \<Rightarrow> string"
  and repr_entries :: "'f host \<Rightarrow> (string \<times> 'f pyval) list \<Rightarrow> string"
where
  "py_repr h PNone = ''None''"
| "py_repr h (PBool v) = (if v then ''True'' else ''False'')"
| "py_repr h (PInt i) = int_str i"
| "py_repr h (PFloat f) = float_repr h f"
| "py_repr h (PStr s) = str_repr h s"
| "py_repr h (PList xs) = ''['' @ repr_items h xs @ '']''"
| "py_repr h (PDict kvs) = ''{'' @ repr_entries h kvs @ ''}''"
| "repr_items h [] = []"
| "repr_items h [x] = py_repr h x"
| "repr_items h (x # y # xs) = py_repr h x @ '', '' @ repr_items h (y # xs)"
| "repr_entries h [] = []"
| "repr_entries h [(k, v)] = str_repr h k @ '': '' @ py_repr h v"
| "repr_entries h ((k, v) # e # kvs) =
     str_repr h k @ '': '' @ py_repr h v @ '', '' @ repr_entries h (e # kvs)"

text \<open>
  \<open>str(v)\<close>: a string is its own text, anything else prints as its \<open>repr\<close>. This
  is the text \<open>str\<close> gives when it gives one.
\<close>

definition py_str :: "'f host \<Rightarrow> 'f pyval \<Rightarrow> string" where
  "py_str h v = (case v of PStr s \<Rightarrow> s | _ \<Rightarrow> py_repr h v)"

text \<open>
  When \<open>str(v)\<close> gives no text but raises \<open>ValueError\<close>: \<open>v\<close> is, or holds, an
  integer with more digits than the limit. The integers that extraction writes into a
  context are within the limit, since \<open>json.loads\<close> applies it too, and so are all
  integers of a context that starts from a text as input; a literal of a pipeline
  definition need not be (YAML reads a hexadecimal literal of any length).
\<close>

definition int_str_raises :: "'f host \<Rightarrow> int \<Rightarrow> bool" where
  "int_str_raises h i =
     (int_max_str_digits h \<noteq> 0 \<and> 10 ^ int_max_str_digits h \<le> \<bar>i\<bar>)"

fun str_raises :: "'f host \<Rightarrow> 'f pyval \<Rightarrow> bool"
  and str_raises_items :: "'f host \<Rightarrow> 'f pyval list \<Rightarrow> bool"
  and str_raises_entries :: "'f host \<Rightarrow> (string \<times> 'f pyval) list \<Rightarrow> bool"
where
  "str_raises h (PInt i) = int_str_raises h i"
| "str_raises h (PList xs) = str_raises_items h xs"
| "str_raises h (PDict kvs) = str_raises_entries h kvs"
| "str_raises h v = False"
| "str_raises_items h [] = False"
| "str_raises_items h (x # xs) = (str_raises h x \<or> str_raises_items h xs)"
| "str_raises_entries h [] = False"
| "str_raises_entries h ((k, v) # kvs) = (str_raises h v \<or> str_raises_entries h kvs)"

text \<open>Booleans count as the integers 0 and 1 among the numbers.\<close>

fun as_num :: "'f pyval \<Rightarrow> 'f num option" where
  "as_num (PBool v) = Some (NInt (if v then 1 else 0))"
| "as_num (PInt i) = Some (NInt i)"
| "as_num (PFloat f) = Some (NFloat f)"
| "as_num v = None"

definition num_lt :: "'f host \<Rightarrow> 'f num \<Rightarrow> 'f num \<Rightarrow> bool" where
  "num_lt h x y = (case (x, y) of (NInt i, NInt j) \<Rightarrow> i < j | _ \<Rightarrow> float_lt h x y)"

definition num_eq :: "'f host \<Rightarrow> 'f num \<Rightarrow> 'f num \<Rightarrow> bool" where
  "num_eq h x y = (case (x, y) of (NInt i, NInt j) \<Rightarrow> i = j | _ \<Rightarrow> float_eq h x y)"

text \<open>
  \<open>x == y\<close>. It never raises. Lists are equal item by item, dictionaries when they have
  the same keys with equal values; items are first compared by identity.
\<close>

fun py_eq :: "'f host \<Rightarrow> 'f pyval \<Rightarrow> 'f pyval \<Rightarrow> bool"
  and eq_items :: "'f host \<Rightarrow> 'f pyval list \<Rightarrow> 'f pyval list \<Rightarrow> bool"
  and eq_entries :: "'f host \<Rightarrow> (string \<times> 'f pyval) list \<Rightarrow> (string \<times> 'f pyval) list \<Rightarrow> bool"
where
  "py_eq h PNone PNone = True"
| "py_eq h (PStr s) (PStr t) = (s = t)"
| "py_eq h (PList xs) (PList ys) = eq_items h xs ys"
| "py_eq h (PDict xs) (PDict ys) = (length xs = length ys \<and> eq_entries h xs ys)"
| "py_eq h x y =
     (case (as_num x, as_num y) of
        (Some m, Some n) \<Rightarrow> num_eq h m n
      | _ \<Rightarrow> False)"
| "eq_items h [] ys = (ys = [])"
| "eq_items h (x # xs) [] = False"
| "eq_items h (x # xs) (y # ys) = ((is_same h x y \<or> py_eq h x y) \<and> eq_items h xs ys)"
| "eq_entries h [] ys = True"
| "eq_entries h ((k, v) # xs) ys =
     ((case map_of ys k of
         None \<Rightarrow> False
       | Some w \<Rightarrow> is_same h v w \<or> py_eq h v w)
      \<and> eq_entries h xs ys)"

text \<open>
  \<open>x < y\<close> and \<open>x > y\<close>. Numbers compare with numbers, strings with strings, lists
  with lists at the first pair of items that differ; everything else is a
  \<open>TypeError\<close>.
\<close>

datatype ord_op = LessThan | GreaterThan

definition num_cmp :: "'f host \<Rightarrow> ord_op \<Rightarrow> 'f num \<Rightarrow> 'f num \<Rightarrow> bool" where
  "num_cmp h d x y = (case d of LessThan \<Rightarrow> num_lt h x y | GreaterThan \<Rightarrow> num_lt h y x)"

definition str_cmp :: "ord_op \<Rightarrow> string \<Rightarrow> string \<Rightarrow> bool" where
  "str_cmp d s t = (case d of LessThan \<Rightarrow> str_lt s t | GreaterThan \<Rightarrow> str_lt t s)"

fun py_compare :: "'f host \<Rightarrow> ord_op \<Rightarrow> 'f pyval \<Rightarrow> 'f pyval \<Rightarrow> error + bool"
  and cmp_items :: "'f host \<Rightarrow> ord_op \<Rightarrow> 'f pyval list \<Rightarrow> 'f pyval list \<Rightarrow> error + bool"
where
  "py_compare h d (PStr s) (PStr t) = Inr (str_cmp d s t)"
| "py_compare h d (PList xs) (PList ys) = cmp_items h d xs ys"
| "py_compare h d x y =
     (case (as_num x, as_num y) of
        (Some m, Some n) \<Rightarrow> Inr (num_cmp h d m n)
      | _ \<Rightarrow> Inl TypeError)"
| "cmp_items h d [] ys = Inr (d = LessThan \<and> ys \<noteq> [])"
| "cmp_items h d (x # xs) [] = Inr (d = GreaterThan)"
| "cmp_items h d (x # xs) (y # ys) =
     (if is_same h x y \<or> py_eq h x y then cmp_items h d xs ys
      else py_compare h d x y)"

text \<open>
  \<open>y in x\<close>: a substring of a string (the needle must be a string), an item of a list,
  a key of a dictionary (the needle must be hashable); nothing else is a container.
\<close>

fun py_contains :: "'f host \<Rightarrow> 'f pyval \<Rightarrow> 'f pyval \<Rightarrow> error + bool" where
  "py_contains h (PStr s) y =
     (case y of PStr t \<Rightarrow> Inr (is_substring t s) | _ \<Rightarrow> Inl TypeError)"
| "py_contains h (PList xs) y = Inr (list_ex (\<lambda>x. is_same h x y \<or> py_eq h x y) xs)"
| "py_contains h (PDict kvs) y =
     (case y of
        PList _ \<Rightarrow> Inl TypeError
      | PDict _ \<Rightarrow> Inl TypeError
      | PStr k \<Rightarrow> Inr (map_of kvs k \<noteq> None)
      | _ \<Rightarrow> Inr False)"
| "py_contains h x y = Inl TypeError"

section \<open>Condition evaluator\<close>

text \<open>\<open>models.Condition\<close>: a tree, each node with optional \<open>and\<close> and \<open>or\<close> lists.\<close>

datatype 'f condition =
  Condition (cond_a: string) (cond_op: string) (cond_b: "'f pyval")
    (cond_and: "'f condition list option") (cond_or: "'f condition list option")

text \<open>The table \<open>ops\<close> of \<open>_evaluate_single_condition\<close>, keyed by operator name.\<close>

definition ops :: "(string \<times> ('f host \<Rightarrow> 'f pyval \<Rightarrow> 'f pyval \<Rightarrow> error + bool)) list" where
  "ops =
     [(''gt'', \<lambda>h x y. py_compare h GreaterThan x y),
      (''lt'', \<lambda>h x y. py_compare h LessThan x y),
      (''eq'', \<lambda>h x y. Inr (py_eq h x y)),
      (''is'', \<lambda>h x y. Inr (is_same h x y)),
      (''is_not'', \<lambda>h x y. Inr (\<not> is_same h x y)),
      (''contains'', \<lambda>h x y. py_contains h x y)]"

text \<open>
  The first half of \<open>_evaluate_single_condition\<close>: the operand \<open>a\<close> is looked up in the
  context, the operator is applied, and a \<open>TypeError\<close> leads to a second application
  on the texts of both operands. That second application, with the two calls of
  \<open>str\<close>, is outside the \<open>try\<close>: what it raises is raised by the evaluator.
\<close>

definition base_result :: "'f host \<Rightarrow> 'f pydict \<Rightarrow> 'f condition \<Rightarrow> error + bool" where
  "base_result h ctx c =
     (let val_a = lookup_path (PDict ctx) (cond_a c);
          val_b = cond_b c
      in case map_of ops (cond_op c) of
           None \<Rightarrow> Inr False
         | Some op_func \<Rightarrow>
             if val_a = PNone then Inr False
             else (case op_func h val_a val_b of
                     Inl TypeError \<Rightarrow>
                       if str_raises h val_a \<or> str_raises h val_b then Inl ValueError
                       else op_func h (PStr (py_str h val_a)) (PStr (py_str h val_b))
                   | Inl e \<Rightarrow> Inl e
                   | Inr r \<Rightarrow> Inr r))"

text \<open>
  \<open>asyncio.gather\<close> over coroutines that do not suspend: the results in order, or the
  first exception.
\<close>

fun gather :: "(error + 'a) list \<Rightarrow> error + 'a list" where
  "gather [] = Inr []"
| "gather (r # rs) =
     (case r of
        Inl e \<Rightarrow> Inl e
      | Inr x \<Rightarrow> (case gather rs of Inl e \<Rightarrow> Inl e | Inr xs \<Rightarrow> Inr (x # xs)))"

text \<open>A list that is \<open>None\<close> or empty is false in a Python test.\<close>

fun given :: "'a list option \<Rightarrow> 'a list" where
  "given None = []"
| "given (Some xs) = xs"

function evaluate_single_condition :: "'f host \<Rightarrow> 'f pydict \<Rightarrow> 'f condition \<Rightarrow> error + bool" where
  "evaluate_single_condition h ctx (Condition pa pop pb pand por) =
     (case base_result h ctx (Condition pa pop pb pand por) of
        Inl e \<Rightarrow> Inl e
      | Inr result \<Rightarrow>
          if result \<and> given pand \<noteq> [] then
            (case gather (map (evaluate_single_condition h ctx) (given pand)) of
               Inl e \<Rightarrow> Inl e
             | Inr and_results \<Rightarrow> Inr (list_all id and_results))
          else if \<not> result \<and> given por \<noteq> [] then
            (case gather (map (evaluate_single_condition h ctx) (given por)) of
               Inl e \<Rightarrow> Inl e
             | Inr or_results \<Rightarrow> Inr (list_ex id or_results))
          else Inr result)"
  by pat_completeness auto

lemma size_given_member:
  "x \<in> set (given cs) \<Longrightarrow> size x < size_option (size_list size) cs"
proof (cases cs)
  case None
  assume "x \<in> set (given cs)"
  with None show ?thesis by simp
next
  case (Some xs)
  assume "x \<in> set (given cs)"
  with Some have "x \<in> set xs" by simp
  then have "size x < Suc (size_list size xs)"
    by (induction xs) auto
  with Some show ?thesis by simp
qed

termination evaluate_single_condition
proof (relation "measure (\<lambda>(h, ctx, c). size c)")
  show "wf (measure (\<lambda>(h :: 'f host, ctx :: 'f pydict, c :: 'f condition). size c))"
    by simp
next
  fix h :: "'f host" and ctx :: "'f pydict" and pa pop pb pand por and x :: "'f condition"
  assume "x \<in> set (given pand)"
  from size_given_member [OF this]
  show "((h, ctx, x), (h, ctx, Condition pa pop pb pand por))
          \<in> measure (\<lambda>(h, ctx, c). size c)"
    by simp
next
  fix h :: "'f host" and ctx :: "'f pydict" and pa pop pb pand por and x :: "'f condition"
  assume "x \<in> set (given por)"
  from size_given_member [OF this]
  show "((h, ctx, x), (h, ctx, Condition pa pop pb pand por))
          \<in> measure (\<lambda>(h, ctx, c). size c)"
    by simp
qed

definition evaluate_conditions :: "'f host \<Rightarrow> 'f pydict \<Rightarrow> 'f condition list option \<Rightarrow> error + bool" where
  "evaluate_conditions h ctx conditions =
     (if given conditions = [] then Inr True
      else (case gather (map (evaluate_single_condition h ctx) (given conditions)) of
              Inl e \<Rightarrow> Inl e
            | Inr results \<Rightarrow> Inr (list_all id results)))"

section \<open>Template substitutor\<close>

text \<open>
  The pattern \<open>\$\{([^}]+)\}\<close> matched at the start of a string: \<open>${\<close>, then every
  character up to the first \<open>}\<close>, at least one. The result is group 1 and the text
  after the match.
\<close>

fun find_close :: "string \<Rightarrow> (string \<times> string) option" where
  "find_close [] = None"
| "find_close (c # cs) =
     (if c = CHR ''}'' then Some ([], cs)
      else (case find_close cs of
              None \<Rightarrow> None
            | Some (body, rest) \<Rightarrow> Some (c # body, rest)))"

fun match_here :: "string \<Rightarrow> (string \<times> string) option" where
  "match_here (c # d # cs) =
     (if c = CHR ''$'' \<and> d = CHR ''{'' then
        (case find_close cs of
           None \<Rightarrow> None
         | Some (body, rest) \<Rightarrow> if body = [] then None else Some (body, rest))
      else None)"
| "match_here cs = None"

text \<open>\<open>replace_match\<close>, the callback of \<open>_substitute_variables\<close>.\<close>

definition replace_match :: "'f host \<Rightarrow> 'f pydict \<Rightarrow> string \<Rightarrow> string" where
  "replace_match h ctx path =
     (let v = lookup_path (PDict ctx) path
      in if v \<noteq> PNone then py_str h v else [])"

lemma find_close_shorter: "find_close cs = Some (body, rest) \<Longrightarrow> length rest < length cs"
  by (induction cs arbitrary: body) (auto split: if_splits option.splits)

lemma match_here_shorter: "match_here cs = Some (body, rest) \<Longrightarrow> length rest < length cs"
  by (cases cs rule: match_here.cases)
     (auto split: if_splits option.splits dest: find_close_shorter)

text \<open>
  \<open>re.sub(pattern, replace_match, template)\<close>: the scan goes from left to right; a
  match is replaced by the callback's text and the scan goes on after the match; a
  character where no match starts is copied.
\<close>

function substitute_variables :: "'f host \<Rightarrow> 'f pydict \<Rightarrow> string \<Rightarrow> string" where
  "substitute_variables h ctx [] = []"
| "substitute_variables h ctx (c # cs) =
     (case match_here (c # cs) of
        Some (path, rest) \<Rightarrow> replace_match h ctx path @ substitute_variables h ctx rest
      | None \<Rightarrow> c # substitute_variables h ctx cs)"
  by pat_completeness auto

termination substitute_variables
  by (relation "measure (\<lambda>(h, ctx, t). length t)")
     (auto dest: match_here_shorter)





section \<open>Extraction and coercion\<close>

text \<open>\<open>models.ExtractRule\<close>. The target type is one of the three words, or absent.\<close>

record extract_rule =
  rule_name :: string
  rule_jq :: "string option"
  rule_fulltext :: "bool option"
  rule_type :: "string option"

text \<open>
  \<open>_cast_type\<close>. \<open>float(value)\<close> is the host's; of its exceptions only
  \<open>ValueError\<close> and \<open>TypeError\<close> are caught.
\<close>

definition cast_type :: "'f host \<Rightarrow> 'f pyval \<Rightarrow> string option \<Rightarrow> error + 'f pyval" where
  "cast_type h v target_type =
     (if target_type = Some ''number'' then
        (case to_float h v of
           Inr f \<Rightarrow> Inr (PFloat f)
         | Inl ValueError \<Rightarrow> Inr (PFloat (float_zero h))
         | Inl TypeError \<Rightarrow> Inr (PFloat (float_zero h))
         | Inl e \<Rightarrow> Inl e)
      else if target_type = Some ''boolean'' then
        Inr (PBool (lower (py_str h v) \<in> set [''true'', ''1'', ''yes'']))
      else Inr v)"

text \<open>
  The value one rule yields (the body of the loop of \<open>_extract_data\<close> up to the test
  \<open>value is not None\<close>). \<open>data_to_parse\<close> is \<open>None\<close> when the step is not in JSON
  mode, and also when the document is \<open>null\<close>.
\<close>

definition rule_value :: "'f pyval \<Rightarrow> 'f pyval \<Rightarrow> extract_rule \<Rightarrow> 'f pyval" where
  "rule_value response data_to_parse rule =
     (if rule_fulltext rule = Some True then response
      else (case rule_jq rule of
              None \<Rightarrow> PNone
            | Some jq \<Rightarrow>
                if jq \<noteq> [] \<and> data_to_parse \<noteq> PNone then
                  (if jq = ''.'' then data_to_parse
                   else lookup_path data_to_parse (strip_char (CHR ''.'') jq))
                else PNone))"

fun apply_rules ::
  "'f host \<Rightarrow> 'f pyval \<Rightarrow> 'f pyval \<Rightarrow> 'f pydict \<Rightarrow> extract_rule list \<Rightarrow> error + 'f pydict"
where
  "apply_rules h response data_to_parse ctx [] = Inr ctx"
| "apply_rules h response data_to_parse ctx (rule # rules) =
     (let v = rule_value response data_to_parse rule
      in if v \<noteq> PNone then
           (case cast_type h v (rule_type rule) of
              Inl e \<Rightarrow> Inl e
            | Inr v' \<Rightarrow> apply_rules h response data_to_parse (dict_set (rule_name rule) v' ctx) rules)
         else apply_rules h response data_to_parse ctx rules)"

text \<open>\<open>json.loads(response)\<close>: a \<open>TypeError\<close> on anything that is not text.\<close>

definition loads :: "'f host \<Rightarrow> 'f pyval \<Rightarrow> error + 'f pyval" where
  "loads h response = (case response of PStr s \<Rightarrow> json_loads h s | _ \<Rightarrow> Inl TypeError)"

text \<open>
  \<open>_extract_data\<close>, with the context it updates as an argument and as the result.
\<close>

definition extract_data ::
  "'f host \<Rightarrow> 'f pydict \<Rightarrow> 'f pyval \<Rightarrow> extract_rule list \<Rightarrow> bool \<Rightarrow> error + 'f pydict"
where
  "extract_data h ctx response rules is_json_response =
     (if is_json_response then
        (case loads h response of
           Inl JSONDecodeError \<Rightarrow> Inr ctx
         | Inl e \<Rightarrow> Inl e
         | Inr data_to_parse \<Rightarrow> apply_rules h response data_to_parse ctx rules)
      else apply_rules h response PNone ctx rules)"

text \<open>
  The document the rules of a call read, the local \<open>data_to_parse\<close> of
  \<open>_extract_data\<close>: the parsed response in JSON mode, \<open>None\<close> otherwise (and where
  parsing fails, when no rule is read at all).
\<close>

definition data_to_parse :: "'f host \<Rightarrow> 'f pyval \<Rightarrow> bool \<Rightarrow> 'f pyval" where
  "data_to_parse h response is_json_response =
     (if is_json_response then (case loads h response of Inr d \<Rightarrow> d | Inl e \<Rightarrow> PNone) else PNone)"

section \<open>Completion waiter\<close>

text \<open>
  One round of the loop of \<open>ApiWaiter.wait_for_status\<close> ends in a fault (an HTTP error
  status, a network error, a body that is not JSON), which is printed, or in the parsed
  body.
\<close>

datatype 'f poll_result = PollFault | PollData "'f pyval"

text \<open>
  What one round makes of its response: the body itself when it is a dictionary whose
  \<open>status\<close>, in lower case, is terminal; otherwise nothing, and the loop goes on. A
  status that is not a string and a body that is not a dictionary raise inside the
  \<open>try\<close>, whose last handler catches every exception.
\<close>

definition terminal_statuses :: "string list" where
  "terminal_statuses = [''completed'', ''failed'', ''canceled'']"

definition terminal_payload :: "'f poll_result \<Rightarrow> 'f pyval option" where
  "terminal_payload r =
     (case r of
        PollFault \<Rightarrow> None
      | PollData d \<Rightarrow>
          (case d of
             PDict kvs \<Rightarrow>
               (case map_of kvs ''status'' of
                  Some (PStr status) \<Rightarrow>
                    if lower status \<in> set terminal_statuses then Some d else None
                | _ \<Rightarrow> None)
           | _ \<Rightarrow> None))"

text \<open>
  The loop. \<open>post\<close> sends one request to the poll address in the world \<open>w\<close> and gives
  its outcome and the world after it; \<open>pause\<close> is \<open>asyncio.sleep\<close>. The loop has no
  bound: where no terminal status ever comes the result is \<open>None\<close>.
\<close>

partial_function (option) wait_for_status ::
  "('w \<Rightarrow> 'f poll_result \<times> 'w) \<Rightarrow> (nat \<Rightarrow> 'w \<Rightarrow> 'w) \<Rightarrow> 'w \<Rightarrow> ('f pyval \<times> 'w) option"
where
  "wait_for_status post pause w =
     (case post w of
        (r, w') \<Rightarrow>
          (case terminal_payload r of
             Some d \<Rightarrow> Some (d, w')
           | None \<Rightarrow> wait_for_status post pause (pause 5 w')))"

declare wait_for_status.simps [code]

text \<open>
  The world when the next request goes out, after a response that did not end the
  loop: the response has come and five seconds have passed.
\<close>

definition next_round :: "('w \<Rightarrow> 'f poll_result \<times> 'w) \<Rightarrow> (nat \<Rightarrow> 'w \<Rightarrow> 'w) \<Rightarrow> 'w \<Rightarrow> 'w" where
  "next_round post pause w = pause 5 (snd (post w))"

section \<open>Capability dispatcher\<close>

text \<open>
  The backend as the engine sees it, over a world \<open>'w\<close> that every request may change:
  the advertised capabilities, the submission of a task (capability, system text, user
  text, JSON mode), one poll of a task (quoted capability and task id, the two parts of
  the poll address), and the passing of time.
\<close>

record ('f, 'w) backend =
  check_capabilities_online :: "'w \<Rightarrow> (error + string list) \<times> 'w"
  submit_task :: "string \<Rightarrow> string \<Rightarrow> string \<Rightarrow> bool \<Rightarrow> 'w \<Rightarrow> (error + 'f pyval) \<times> 'w"
  poll_task :: "string \<Rightarrow> 'f pyval \<Rightarrow> 'w \<Rightarrow> 'f poll_result \<times> 'w"
  asyncio_sleep :: "nat \<Rightarrow> 'w \<Rightarrow> 'w"

text \<open>\<open>ModelPicker.consider_model\<close>: the request and the language are not used.\<close>

definition usable :: "string list \<Rightarrow> string list" where
  "usable available = filter (\<lambda>x. startswith x ''LLM::'') available"

definition consider_model ::
  "('f, 'w) backend \<Rightarrow> string \<Rightarrow> string option \<Rightarrow> 'w \<Rightarrow> (error + string option) \<times> 'w"
where
  "consider_model be request lang w =
     (case check_capabilities_online be w of
        (Inl e, w') \<Rightarrow> (Inl e, w')
      | (Inr available, w') \<Rightarrow>
          (case usable available of
             x # _ \<Rightarrow> (Inr (Some x), w')
           | [] \<Rightarrow> (Inr None, w')))"

text \<open>A value in a Python test.\<close>

definition truthy :: "'f host \<Rightarrow> 'f pyval \<Rightarrow> bool" where
  "truthy h v =
     (case v of
        PNone \<Rightarrow> False
      | PBool t \<Rightarrow> t
      | PInt i \<Rightarrow> i \<noteq> 0
      | PFloat f \<Rightarrow> \<not> float_eq h (NFloat f) (NInt 0)
      | PStr s \<Rightarrow> s \<noteq> []
      | PList xs \<Rightarrow> xs \<noteq> []
      | PDict kvs \<Rightarrow> kvs \<noteq> [])"

text \<open>
  \<open>qpart\<close>, up to the quoting itself: \<open>urllib.parse.quote(value or "", safe="")\<close>
  takes a string; a false value counts as the empty string, any other value is a
  \<open>TypeError\<close>. The poll address is kept as the capability before quoting.
\<close>

definition qpart :: "'f host \<Rightarrow> 'f pyval \<Rightarrow> error + string" where
  "qpart h v =
     (case v of
        PStr s \<Rightarrow> Inr s
      | _ \<Rightarrow> if truthy h v then Inl TypeError else Inr [])"

text \<open>
  \<open>task["id"]["id"]\<close>, \<open>task["id"]["cap"]\<close> and \<open>create_task_waiter\<close>, in this
  order.
\<close>

definition task_waiter :: "'f host \<Rightarrow> 'f pyval \<Rightarrow> error + (string \<times> 'f pyval)" where
  "task_waiter h task =
     (case getitem task ''id'' of
        Inl e \<Rightarrow> Inl e
      | Inr ids \<Rightarrow>
          (case getitem ids ''id'' of
             Inl e \<Rightarrow> Inl e
           | Inr task_id \<Rightarrow>
               (case getitem ids ''cap'' of
                  Inl e \<Rightarrow> Inl e
                | Inr task_capability \<Rightarrow>
                    (case qpart h task_capability of
                       Inl e \<Rightarrow> Inl e
                     | Inr encoded_capability \<Rightarrow> Inr (encoded_capability, task_id)))))"

text \<open>\<open>QuerySender.execute\<close>. \<open>None\<close>: the waiter never returns.\<close>

definition query_sender_execute ::
  "('f, 'w) backend \<Rightarrow> 'f host \<Rightarrow> string option \<Rightarrow> string \<Rightarrow> bool option \<Rightarrow> string \<Rightarrow> string \<Rightarrow> 'w
     \<Rightarrow> ((error + 'f pyval) \<times> 'w) option"
where
  "query_sender_execute be h lang model_requested payload_json system_message user_message w =
     (case consider_model be model_requested lang w of
        (Inl e, w1) \<Rightarrow> Some (Inl e, w1)
      | (Inr None, w1) \<Rightarrow> Some (Inl (NoCapabilityAvailable model_requested), w1)
      | (Inr (Some picked_model), w1) \<Rightarrow>
          (case submit_task be picked_model system_message user_message
                  (payload_json = Some True) w1 of
             (Inl e, w2) \<Rightarrow> Some (Inl e, w2)
           | (Inr task, w2) \<Rightarrow>
               (case task_waiter h task of
                  Inl e \<Rightarrow> Some (Inl e, w2)
                | Inr (encoded_capability, task_id) \<Rightarrow>
                    (case wait_for_status (poll_task be encoded_capability task_id)
                            (asyncio_sleep be) w2 of
                       None \<Rightarrow> None
                     | Some (result, w3) \<Rightarrow> Some (getitem result ''output'', w3)))))"

section \<open>Pipeline executor\<close>

text \<open>
  \<open>models.Message\<close> (its \<open>chat_history\<close> is never read), \<open>models.Step\<close> and
  \<open>models.Pipeline\<close>.
\<close>

record message =
  msg_system :: string
  msg_user :: string

record 'f step =
  step_action :: string
  step_if :: "'f condition list option"
  step_json :: "bool option"
  step_model :: "string option"
  step_lang :: "string option"
  step_message :: "message option"
  step_extract :: "extract_rule list option"

record 'f pipeline =
  pipeline_name :: string
  pipeline_steps :: "'f step list"

text \<open>
  \<open>_execute_query_step\<close> (with \<open>_perform_llm_query\<close>, which only calls the query
  sender): the context before the step to the context after it.
\<close>

definition execute_query_step ::
  "('f, 'w) backend \<Rightarrow> 'f host \<Rightarrow> 'f pydict \<Rightarrow> 'f step \<Rightarrow> 'w \<Rightarrow> ((error + 'f pydict) \<times> 'w) option"
where
  "execute_query_step be h ctx step w =
     (case step_message step of
        None \<Rightarrow> Some (Inr ctx, w)
      | Some m \<Rightarrow>
          (let system_prompt = substitute_variables h ctx (msg_system m);
               user_prompt = substitute_variables h ctx (msg_user m);
               json_flag = (step_json step = Some True);
               model = (case step_model step of None \<Rightarrow> [] | Some name \<Rightarrow> name)
           in case query_sender_execute be h (step_lang step) model (step_json step)
                     system_prompt user_prompt w of
                None \<Rightarrow> None
              | Some (Inl e, w') \<Rightarrow> Some (Inl e, w')
              | Some (Inr response, w') \<Rightarrow>
                  if given (step_extract step) \<noteq> [] then
                    (case getitem response ''message'' of
                       Inl e \<Rightarrow> Some (Inl e, w')
                     | Inr msg \<Rightarrow>
                         (case getitem msg ''content'' of
                            Inl e \<Rightarrow> Some (Inl e, w')
                          | Inr content \<Rightarrow>
                              Some (extract_data h ctx content (given (step_extract step))
                                      json_flag, w')))
                  else Some (Inr ctx, w')))"

text \<open>The loop of \<open>execute\<close> over the steps, and \<open>execute\<close> itself.\<close>

fun execute_steps ::
  "('f, 'w) backend \<Rightarrow> 'f host \<Rightarrow> 'f pydict \<Rightarrow> 'f step list \<Rightarrow> 'w \<Rightarrow> ((error + 'f pydict) \<times> 'w) option"
where
  "execute_steps be h ctx [] w = Some (Inr ctx, w)"
| "execute_steps be h ctx (step # steps) w =
     (case evaluate_conditions h ctx (step_if step) of
        Inl e \<Rightarrow> Some (Inl e, w)
      | Inr should_run \<Rightarrow>
          if \<not> should_run then execute_steps be h ctx steps w
          else if step_action step = ''query'' then
            (case execute_query_step be h ctx step w of
               None \<Rightarrow> None
             | Some (Inl e, w') \<Rightarrow> Some (Inl e, w')
             | Some (Inr ctx', w') \<Rightarrow> execute_steps be h ctx' steps w')
          else execute_steps be h ctx steps w)"

definition execute ::
  "('f, 'w) backend \<Rightarrow> 'f host \<Rightarrow> 'f pipeline \<Rightarrow> 'f pyval \<Rightarrow> 'w \<Rightarrow> ((error + 'f pydict) \<times> 'w) option"
where
  "execute be h pipeline initial_input w =
     execute_steps be h [(''input'', initial_input)] (pipeline_steps pipeline) w"

section \<open>A host for the worked examples\<close>

text \<open>
  The examples below run on a host whose floats are the integral ones (\<open>2.0\<close> is the
  integer 2), whose \<open>is\<close> holds between equal singletons (\<open>None\<close>, the booleans, the
  integers from -5 to 256) and whose \<open>json.loads\<close> knows the documents listed here,
  gives up with \<open>RecursionError\<close> on a thousand opening brackets, as CPython does, and
  finds the other texts the examples hand to it not to be JSON. Strings in the examples
  are plain words, so their \<open>repr\<close> is the word in single quotes and \<open>float\<close>
  rejects them. The digit limit is the default.
\<close>

definition demo_is_same :: "int pyval \<Rightarrow> int pyval \<Rightarrow> bool" where
  "demo_is_same x y =
     (case (x, y) of
        (PNone, PNone) \<Rightarrow> True
      | (PBool s, PBool t) \<Rightarrow> s = t
      | (PInt i, PInt j) \<Rightarrow> i = j \<and> - 5 \<le> i \<and> i \<le> 256
      | _ \<Rightarrow> False)"

definition demo_num :: "int num \<Rightarrow> int" where
  "demo_num x = (case x of NInt i \<Rightarrow> i | NFloat f \<Rightarrow> f)"

definition demo_to_float :: "int pyval \<Rightarrow> error + int" where
  "demo_to_float v =
     (case v of
        PBool t \<Rightarrow> Inr (if t then 1 else 0)
      | PInt i \<Rightarrow> Inr i
      | PFloat f \<Rightarrow> Inr f
      | PStr s \<Rightarrow> Inl ValueError
      | _ \<Rightarrow> Inl TypeError)"

definition foo_bar_text :: string where
  \<open>foo_bar_text = ''{"foo": {"bar": 7}}''\<close>

definition foo_bar :: "int pyval" where
  "foo_bar = PDict [(''foo'', PDict [(''bar'', PInt 7)])]"

definition demo_documents :: "(string \<times> int pyval) list" where
  "demo_documents = [(foo_bar_text, foo_bar), (''null'', PNone)]"

definition deep_text :: string where
  "deep_text = replicate 1000 (CHR ''['')"

definition demo_host :: "int host" where
  "demo_host =
     \<lparr> is_same = demo_is_same,
       float_lt = (\<lambda>x y. demo_num x < demo_num y),
       float_eq = (\<lambda>x y. demo_num x = demo_num y),
       float_repr = (\<lambda>f. int_str f @ ''.0''),
       str_repr = (\<lambda>s. [CHR 0x27] @ s @ [CHR 0x27]),
       to_float = demo_to_float,
       float_zero = 0,
       json_loads = (\<lambda>s. if s = deep_text then Inl RecursionError
                         else (case map_of demo_documents s of
                                 None \<Rightarrow> Inl JSONDecodeError
                               | Some d \<Rightarrow> Inr d)),
       int_max_str_digits = 4300 \<rparr>"

text \<open>A literal a pipeline can hold and \<open>str\<close> cannot print: 4301 digits.\<close>

definition huge :: int where
  "huge = 10 ^ 4300"

text \<open>
  The backend of the examples. Its world is the list of poll responses it has yet to
  give and the log of what the engine has asked of it. It advertises the capabilities it
  is given, accepts every task under the id \<open>task-1\<close>, and answers each poll with the
  next response of the list (a fault once the list is empty).
\<close>

datatype event =
    AskedCapabilities
  | Submitted string string string bool
  | Polled string "int pyval"
  | Paused nat

type_synonym world = "int poll_result list \<times> event list"

definition demo_backend :: "string list \<Rightarrow> (int, world) backend" where
  "demo_backend advertised =
     \<lparr> check_capabilities_online =
         (\<lambda>w. (Inr advertised, (fst w, snd w @ [AskedCapabilities]))),
       submit_task =
         (\<lambda>capability system user json_mode w.
            (Inr (PDict [(''id'', PDict [(''id'', PStr ''task-1''), (''cap'', PStr capability)])]),
             (fst w, snd w @ [Submitted capability system user json_mode]))),
       poll_task =
         (\<lambda>capability task_id w.
            (case fst w of
               [] \<Rightarrow> (PollFault, ([], snd w @ [Polled capability task_id]))
             | r # rs \<Rightarrow> (r, (rs, snd w @ [Polled capability task_id])))),
       asyncio_sleep = (\<lambda>n w. (fst w, snd w @ [Paused n])) \<rparr>"

definition processing :: "int pyval" where
  "processing = PDict [(''status'', PStr ''processing'')]"

definition completed :: "int pyval" where
  "completed =
     PDict [(''status'', PStr ''completed''),
            (''output'', PDict [(''message'',
               PDict [(''role'', PStr ''assistant''), (''content'', PStr ''looks fine'')])])]"

definition demo_capabilities :: "string list" where
  "demo_capabilities = [''EMBED::e5'', ''LLM::alpha'', ''LLM::beta'']"

text \<open>
  Two steps after the pipeline of the repository's \<open>testme.py\<close>: the first asks for an
  analysis in JSON mode, the second runs only when the first found the line suspicious.
\<close>

definition analyse_step :: "int step" where
  "analyse_step =
     \<lparr> step_action = ''query'', step_if = None, step_json = Some True,
       step_model = Some ''any'', step_lang = Some ''en'',
       step_message = Some \<lparr> msg_system = ''You are a logs analyzer.'',
                              msg_user = ''Analyze log line: ${input}'' \<rparr>,
       step_extract = Some [\<lparr> rule_name = ''result_all'', rule_jq = Some ''.'',
                               rule_fulltext = None, rule_type = None \<rparr>] \<rparr>"

definition expert_step :: "int step" where
  "expert_step =
     \<lparr> step_action = ''query'',
       step_if = Some [Condition ''suspicious_coef'' ''gt'' (PInt 5)
                         (Some [Condition ''sec_risk'' ''is'' (PBool True) None None]) None],
       step_json = Some False, step_model = Some ''any/strong'', step_lang = None,
       step_message = Some \<lparr> msg_system = ''You are a helpful assistant'',
                              msg_user = ''You have got a log line: ${input}. Explain.'' \<rparr>,
       step_extract = Some [\<lparr> rule_name = ''expert_response'', rule_jq = None,
                               rule_fulltext = Some True, rule_type = None \<rparr>] \<rparr>"

text \<open>Two extraction rules: a path that the document has, and one that it lacks.\<close>

definition bar_rule :: extract_rule where
  "bar_rule = \<lparr> rule_name = ''bar'', rule_jq = None, rule_fulltext = None, rule_type = None \<rparr>"

definition score_rule :: extract_rule where
  "score_rule = \<lparr> rule_name = ''score'', rule_jq = Some ''.foo.baz'', rule_fulltext = None,
                   rule_type = Some ''number'' \<rparr>"

lemma not_deep_text: "length s \<noteq> 1000 \<Longrightarrow> s \<noteq> deep_text"
proof
  assume "s = deep_text"
  then have "length s = 1000" by (simp only: deep_text_def length_replicate)
  moreover assume "length s \<noteq> 1000"
  ultimately show False by simp
qed

lemma digit_has_text: "\<bar>i\<bar> < 10 \<Longrightarrow> \<not> int_str_raises h i"
proof
  assume small: "\<bar>i\<bar> < 10" and "int_str_raises h i"
  then have limit: "int_max_str_digits h \<noteq> 0" and big: "10 ^ int_max_str_digits h \<le> \<bar>i\<bar>"
    by (simp_all add: int_str_raises_def)
  from limit have "(10 :: int) ^ 1 \<le> 10 ^ int_max_str_digits h"
    by (intro power_increasing) simp_all
  with big small show False by simp
qed

lemma power_of_ten_raises:
  "int_max_str_digits h = n \<Longrightarrow> n \<noteq> 0 \<Longrightarrow> int_str_raises h (10 ^ n)"
  by (simp add: int_str_raises_def)

lemma huge_raises: "int_str_raises demo_host huge"
proof -
  have limit: "int_max_str_digits demo_host = 4300" by (simp add: demo_host_def)
  have positive: "(4300 :: nat) \<noteq> 0" by simp
  show ?thesis unfolding huge_def by (rule power_of_ten_raises [OF limit positive])
qed

lemma demo_backend_fields:
  "check_capabilities_online (demo_backend advertised) w
     = (Inr advertised, (fst w, snd w @ [AskedCapabilities]))"
  "submit_task (demo_backend advertised) capability system user json_mode w
     = (Inr (PDict [(''id'', PDict [(''id'', PStr ''task-1''), (''cap'', PStr capability)])]),
        (fst w, snd w @ [Submitted capability system user json_mode]))"
  "poll_task (demo_backend advertised) capability task_id (r # rs, log)
     = (r, (rs, log @ [Polled capability task_id]))"
  "poll_task (demo_backend advertised) capability task_id ([], log)
     = (PollFault, ([], log @ [Polled capability task_id]))"
  "asyncio_sleep (demo_backend advertised) n w = (fst w, snd w @ [Paused n])"
  by (simp_all add: demo_backend_def)

lemmas demo_defs = demo_backend_def terminal_payload_def next_round_def
  processing_def completed_def terminal_statuses_def lower_def lower_char_def

section \<open>Extraction on a response that is not JSON\<close>




section \<open>What the operators raise\<close>

text \<open>
  The operators of the table raise nothing but \<open>TypeError\<close>, and applied to two
  strings they raise nothing at all. So the second application in
  \<open>_evaluate_single_condition\<close>, which stands outside the \<open>try\<close>, raises only where
  \<open>str\<close> does.
\<close>

lemma compare_raises_only_type_error:
  "py_compare h d x y = Inl e \<Longrightarrow> e = TypeError"
  "cmp_items h d xs ys = Inl e \<Longrightarrow> e = TypeError"
  by (induction h d x y and h d xs ys rule: py_compare_cmp_items.induct)
     (auto split: if_splits option.splits)

lemma contains_raises_only_type_error:
  "py_contains h x y = Inl e \<Longrightarrow> e = TypeError"
  by (cases x; cases y) auto

lemma ops_cases:
  "map_of ops name = Some op_func \<Longrightarrow>
     op_func = (\<lambda>h x y. py_compare h GreaterThan x y) \<or>
     op_func = (\<lambda>h x y. py_compare h LessThan x y) \<or>
     op_func = (\<lambda>h x y. Inr (py_eq h x y)) \<or>
     op_func = (\<lambda>h x y. Inr (is_same h x y)) \<or>
     op_func = (\<lambda>h x y. Inr (\<not> is_same h x y)) \<or>
     op_func = (\<lambda>h x y. py_contains h x y)"
  by (auto simp: ops_def split: if_splits)

lemma ops_raise_only_type_error:
  "map_of ops name = Some op_func \<Longrightarrow> op_func h x y = Inl e \<Longrightarrow> e = TypeError"
  by (auto dest!: ops_cases dest: compare_raises_only_type_error contains_raises_only_type_error)

lemma ops_on_strings:
  "map_of ops name = Some op_func \<Longrightarrow> \<exists>r. op_func h (PStr s) (PStr t) = Inr r"
  by (auto dest!: ops_cases)

lemma base_result_retry:
  assumes "map_of ops name = Some op_func"
    and "lookup_path (PDict ctx) pa = val_a" and "val_a \<noteq> PNone"
    and "op_func h val_a pb = Inl TypeError"
  shows "base_result h ctx (Condition pa name pb pand por)
           = (if str_raises h val_a \<or> str_raises h pb then Inl ValueError
              else op_func h (PStr (py_str h val_a)) (PStr (py_str h pb)))"
  using assms by (simp add: base_result_def Let_def)

lemma gather_map_results:
  fixes f :: "'a \<Rightarrow> error + bool"
  shows "(\<forall>x\<in>set xs. \<exists>r. f x = Inr r) \<Longrightarrow> gather (map f xs) = Inr (map (\<lambda>x. f x = Inr True) xs)"
  by (induction xs) auto

section \<open>An operand that does not resolve\<close>

text \<open>
  C2, as amended. When the path \<open>a\<close> of a condition does not resolve in the context
  (\<open>_lookup_path\<close> returns \<open>None\<close>: a missing key, a step through a value that is not
  a dictionary, or a key whose value is \<open>None\<close>), the operator is not applied and the
  base result is false, without raising. The \<open>and\<close> list is then not consulted. The
  \<open>or\<close> list is: the result is what the evaluation of its conditions gives, false when
  the list is absent or empty, and otherwise, the conditions of the list returning, true
  exactly when one of them evaluates to true. (A condition of the list can raise where
  \<open>str\<close> does, and what it raises is raised by the evaluation.)
\<close>

theorem unresolved_operand_base_false:
  "lookup_path (PDict ctx) pa = PNone \<Longrightarrow>
     base_result h ctx (Condition pa pop pb pand por) = Inr False
     \<and> evaluate_single_condition h ctx (Condition pa pop pb pand por)
         = (if given por = [] then Inr False
            else (case gather (map (evaluate_single_condition h ctx) (given por)) of
                    Inl e \<Rightarrow> Inl e
                  | Inr or_results \<Rightarrow> Inr (list_ex id or_results)))
     \<and> ((\<forall>c\<in>set (given por). \<exists>r. evaluate_single_condition h ctx c = Inr r)
         \<longrightarrow> evaluate_single_condition h ctx (Condition pa pop pb pand por)
               = Inr (list_ex (\<lambda>c. evaluate_single_condition h ctx c = Inr True) (given por)))"
proof -
  assume missing: "lookup_path (PDict ctx) pa = PNone"
  then have base: "base_result h ctx (Condition pa pop pb pand por) = Inr False"
    by (simp add: base_result_def Let_def split: option.splits)
  then have full: "evaluate_single_condition h ctx (Condition pa pop pb pand por)
         = (if given por = [] then Inr False
            else (case gather (map (evaluate_single_condition h ctx) (given por)) of
                    Inl e \<Rightarrow> Inl e
                  | Inr or_results \<Rightarrow> Inr (list_ex id or_results)))"
    by simp
  have "evaluate_single_condition h ctx (Condition pa pop pb pand por)
               = Inr (list_ex (\<lambda>c. evaluate_single_condition h ctx c = Inr True) (given por))"
    if "\<forall>c\<in>set (given por). \<exists>r. evaluate_single_condition h ctx c = Inr r"
    using full gather_map_results [OF that]
    by (cases "given por") (simp_all add: list_ex_iff)
  with base full show ?thesis by blast
qed

text \<open>
  A step through a value that is not a dictionary: \<open>x.y\<close> is the number 1, so
  \<open>x.y.z\<close> does not resolve; the \<open>and\<close> list, which would hold, is not consulted.
\<close>

theorem unresolved_operand_base_false_witness:
  "lookup_path (PDict [(''x'', PDict [(''y'', PInt 1)])]) ''x.y.z'' = (PNone :: int pyval)
   \<and> evaluate_single_condition demo_host [(''x'', PDict [(''y'', PInt 1)])]
        (Condition ''x.y.z'' ''eq'' (PInt 1)
           (Some [Condition ''x.y'' ''eq'' (PInt 1) None None]) None)
      = Inr False"
proof -
  have missing: "lookup_path (PDict [(''x'', PDict [(''y'', PInt 1)])]) ''x.y.z'' = (PNone :: int pyval)"
    by (simp add: lookup_path_def)
  from unresolved_operand_base_false [OF missing, of demo_host "''eq''" "PInt 1"
         "Some [Condition ''x.y'' ''eq'' (PInt 1) None None]" None]
  have "evaluate_single_condition demo_host [(''x'', PDict [(''y'', PInt 1)])]
        (Condition ''x.y.z'' ''eq'' (PInt 1)
           (Some [Condition ''x.y'' ''eq'' (PInt 1) None None]) None)
      = Inr False"
    by (simp del: evaluate_single_condition.simps)
  with missing show ?thesis by (intro conjI)
qed

text \<open>
  The claim as stated fails: the path \<open>x\<close> is missing from the context, and the
  condition is true through its \<open>or\<close> list.
\<close>

theorem unresolved_operand_or_list_counterexample:
  "lookup_path (PDict [(''y'', PInt 2)]) ''x'' = (PNone :: int pyval)
   \<and> evaluate_single_condition demo_host [(''y'', PInt 2)]
        (Condition ''x'' ''eq'' (PInt 1) None (Some [Condition ''y'' ''eq'' (PInt 2) None None]))
      = Inr True"
  by (simp add: lookup_path_def base_result_def ops_def num_eq_def)

section \<open>Operands of mismatched types\<close>

text \<open>
  C3, as amended. When the operator raises \<open>TypeError\<close> on the resolved operand A and
  the literal B, it is applied again to \<open>str(A)\<close> and \<open>str(B)\<close>. Where both have a
  text, that second application returns (every operator of the table accepts two
  strings) and its result is the base result. Where \<open>str\<close> raises on one of them (an
  integer beyond the digit limit), nothing catches the \<open>ValueError\<close>: there is no
  fall-back to false, the evaluation of the condition raises it, and so does the gate that
  holds the condition.
\<close>

theorem type_mismatch_retries_on_text:
  assumes "map_of ops name = Some op_func"
    and "lookup_path (PDict ctx) pa = val_a" and "val_a \<noteq> PNone"
    and "op_func h val_a pb = Inl TypeError"
  shows "(\<not> str_raises h val_a \<and> \<not> str_raises h pb
          \<longrightarrow> (\<exists>r. op_func h (PStr (py_str h val_a)) (PStr (py_str h pb)) = Inr r
                   \<and> base_result h ctx (Condition pa name pb pand por) = Inr r))
       \<and> (str_raises h val_a \<or> str_raises h pb
          \<longrightarrow> base_result h ctx (Condition pa name pb pand por) = Inl ValueError
              \<and> evaluate_single_condition h ctx (Condition pa name pb pand por) = Inl ValueError
              \<and> evaluate_conditions h ctx (Some [Condition pa name pb pand por])
                  = Inl ValueError)"
proof (intro conjI impI)
  assume texts: "\<not> str_raises h val_a \<and> \<not> str_raises h pb"
  obtain r where r: "op_func h (PStr (py_str h val_a)) (PStr (py_str h pb)) = Inr r"
    using ops_on_strings [OF assms(1)] by blast
  with texts base_result_retry [OF assms, of pand por]
  have "base_result h ctx (Condition pa name pb pand por) = Inr r" by simp
  with r show "\<exists>r. op_func h (PStr (py_str h val_a)) (PStr (py_str h pb)) = Inr r
                   \<and> base_result h ctx (Condition pa name pb pand por) = Inr r"
    by blast
next
  assume "str_raises h val_a \<or> str_raises h pb"
  with base_result_retry [OF assms, of pand por]
  show base: "base_result h ctx (Condition pa name pb pand por) = Inl ValueError"
    by simp
  then show single: "evaluate_single_condition h ctx (Condition pa name pb pand por)
                       = Inl ValueError"
    by simp
  then show "evaluate_conditions h ctx (Some [Condition pa name pb pand por]) = Inl ValueError"
    by (simp add: evaluate_conditions_def del: evaluate_single_condition.simps)
qed

text \<open>
  \<open>"abc" > 5\<close> raises and \<open>"abc" > "5"\<close> is true; \<open>"abc" < huge\<close> raises, and so
  does \<open>str(huge)\<close>.
\<close>

theorem type_mismatch_retries_on_text_witness:
  "map_of ops ''gt'' = Some (\<lambda>(h :: int host) x y. py_compare h GreaterThan x y)
   \<and> lookup_path (PDict [(''x'', PStr ''abc'')]) ''x'' = (PStr ''abc'' :: int pyval)
   \<and> py_compare demo_host GreaterThan (PStr ''abc'') (PInt 5) = Inl TypeError
   \<and> base_result demo_host [(''x'', PStr ''abc'')] (Condition ''x'' ''gt'' (PInt 5) None None)
       = Inr True
   \<and> py_compare demo_host LessThan (PStr ''abc'') (PInt huge) = Inl TypeError
   \<and> base_result demo_host [(''x'', PStr ''abc'')] (Condition ''x'' ''lt'' (PInt huge) None None)
       = Inl ValueError"
proof -
  have table: "map_of ops ''gt'' = Some (\<lambda>(h :: int host) x y. py_compare h GreaterThan x y)"
    and table': "map_of ops ''lt'' = Some (\<lambda>(h :: int host) x y. py_compare h LessThan x y)"
    by (simp_all add: ops_def)
  have found: "lookup_path (PDict [(''x'', PStr ''abc'')]) ''x'' = (PStr ''abc'' :: int pyval)"
    by (simp add: lookup_path_def)
  have raises: "py_compare demo_host GreaterThan (PStr ''abc'') (PInt 5) = Inl TypeError"
    and raises': "py_compare demo_host LessThan (PStr ''abc'') (PInt huge) = Inl TypeError"
    by simp_all
  have texts: "\<not> str_raises demo_host (PStr ''abc'') \<and> \<not> str_raises demo_host (PInt 5)"
    by (simp add: digit_has_text)
  have again: "py_compare demo_host GreaterThan (PStr (py_str demo_host (PStr ''abc'')))
                 (PStr (py_str demo_host (PInt 5))) = Inr True"
    by (simp add: py_str_def int_str_def str_cmp_def)
  from type_mismatch_retries_on_text [OF table found _ raises, of None None] texts again
  have one: "base_result demo_host [(''x'', PStr ''abc'')] (Condition ''x'' ''gt'' (PInt 5) None None)
          = Inr True"
    by auto
  have no_text: "str_raises demo_host (PStr ''abc'') \<or> str_raises demo_host (PInt huge)"
    by (simp add: huge_raises)
  from type_mismatch_retries_on_text [OF table' found _ raises', of None None] no_text
  have two: "base_result demo_host [(''x'', PStr ''abc'')]
               (Condition ''x'' ''lt'' (PInt huge) None None) = Inl ValueError"
    by blast
  from table found raises one raises' two show ?thesis by (intro conjI)
qed

text \<open>
  The claim as stated fails: on the input text and a literal of 4301 digits the
  operator raises \<open>TypeError\<close>, the second application fails in \<open>str\<close>, and the
  condition does not evaluate to false: the \<open>ValueError\<close> reaches the caller.
\<close>

theorem type_mismatch_retry_raises_counterexample:
  "huge = 10 ^ 4300
   \<and> int_max_str_digits demo_host = 4300
   \<and> py_compare demo_host GreaterThan (PStr ''a log line'') (PInt huge) = Inl TypeError
   \<and> evaluate_single_condition demo_host [(''input'', PStr ''a log line'')]
        (Condition ''input'' ''gt'' (PInt huge) None None)
      = Inl ValueError"
proof (intro conjI)
  show "huge = 10 ^ 4300" by (rule huge_def)
  show "int_max_str_digits demo_host = 4300" by (simp add: demo_host_def)
  show "py_compare demo_host GreaterThan (PStr ''a log line'') (PInt huge) = Inl TypeError"
    by simp
  show "evaluate_single_condition demo_host [(''input'', PStr ''a log line'')]
        (Condition ''input'' ''gt'' (PInt huge) None None)
      = Inl ValueError"
    by (simp add: lookup_path_def base_result_def ops_def huge_raises)
qed

section \<open>The waiter\<close>

lemma terminal_payload_iff:
  "terminal_payload r = Some d \<longleftrightarrow>
     (\<exists>kvs status. r = PollData (PDict kvs) \<and> d = PDict kvs
        \<and> map_of kvs ''status'' = Some (PStr status)
        \<and> lower status \<in> {''completed'', ''failed'', ''canceled''})"
  by (auto simp: terminal_payload_def terminal_statuses_def
           split: poll_result.splits pyval.splits option.splits)

lemma wait_terminal_now:
  "terminal_payload (fst (post w)) = Some d \<Longrightarrow> wait_for_status post pause w = Some (d, snd (post w))"
  by (subst wait_for_status.simps) (cases "post w", simp)

lemma wait_not_terminal:
  "terminal_payload (fst (post w)) = None
   \<Longrightarrow> wait_for_status post pause w = wait_for_status post pause (next_round post pause w)"
  by (subst wait_for_status.simps) (cases "post w", simp add: next_round_def)

lemma wait_after_rounds:
  "(\<forall>i<n. terminal_payload (fst (post ((next_round post pause ^^ i) w))) = None)
   \<Longrightarrow> terminal_payload (fst (post ((next_round post pause ^^ n) w))) = Some d
   \<Longrightarrow> wait_for_status post pause w = Some (d, snd (post ((next_round post pause ^^ n) w)))"
proof (induction n arbitrary: w)
  case 0
  then show ?case by (simp add: wait_terminal_now)
next
  case (Suc n)
  from Suc.prems(1) have first: "terminal_payload (fst (post w)) = None"
    by (metis funpow_0 zero_less_Suc)
  have later: "\<forall>i<n. terminal_payload
      (fst (post ((next_round post pause ^^ i) (next_round post pause w)))) = None"
  proof (intro allI impI)
    fix i assume "i < n"
    then have "Suc i < Suc n" by simp
    with Suc.prems(1)
    have "terminal_payload (fst (post ((next_round post pause ^^ Suc i) w))) = None" by blast
    then show "terminal_payload
        (fst (post ((next_round post pause ^^ i) (next_round post pause w)))) = None"
      by (simp add: funpow_swap1)
  qed
  have last: "terminal_payload
      (fst (post ((next_round post pause ^^ n) (next_round post pause w)))) = Some d"
    using Suc.prems(2) by (simp add: funpow_swap1)
  from wait_not_terminal [where post = post and w = w and pause = pause, OF first]
  have "wait_for_status post pause w = wait_for_status post pause (next_round post pause w)" .
  also from Suc.IH [OF later last]
  have "\<dots> = Some (d, snd (post ((next_round post pause ^^ n) (next_round post pause w))))" .
  finally show ?case by (simp add: funpow_swap1)
qed


text \<open>
  C4. A response ends the loop exactly when it is a dictionary whose \<open>status\<close> is a
  string that in lower case is \<open>completed\<close>, \<open>failed\<close> or \<open>canceled\<close>, and what is
  returned is then that dictionary, whole, whichever of the three it is. If the first
  \<open>n\<close> responses do not end the loop and the next one does, the waiter returns that
  response's payload in the world reached by \<open>n + 1\<close> requests with a pause of five
  seconds after each of the first \<open>n\<close>: it has polled \<open>n + 1\<close> times, at a fixed
  interval.
\<close>

theorem waiter_returns_first_terminal_payload:
  "(terminal_payload r = Some d \<longleftrightarrow>
      (\<exists>kvs status. r = PollData (PDict kvs) \<and> d = PDict kvs
         \<and> map_of kvs ''status'' = Some (PStr status)
         \<and> lower status \<in> {''completed'', ''failed'', ''canceled''}))
   \<and> ((\<forall>i<n. terminal_payload (fst (post ((next_round post pause ^^ i) w))) = None)
        \<and> terminal_payload (fst (post ((next_round post pause ^^ n) w))) = Some d'
        \<longrightarrow> wait_for_status post pause w
              = Some (d', snd (post ((next_round post pause ^^ n) w))))"
  using terminal_payload_iff [of r d] wait_after_rounds [of n post pause w d'] by blast


text \<open>
  The responses \<open>processing\<close>, \<open>processing\<close>, \<open>completed\<close> (with its output): three
  requests, two pauses, and the third payload as the result.
\<close>

theorem waiter_three_responses_witness:
  "wait_for_status (poll_task (demo_backend []) ''LLM::alpha'' (PStr ''task-1''))
        (asyncio_sleep (demo_backend []))
        ([PollData processing, PollData processing, PollData completed], [])
      = Some (completed,
              ([], [Polled ''LLM::alpha'' (PStr ''task-1''), Paused 5,
                    Polled ''LLM::alpha'' (PStr ''task-1''), Paused 5,
                    Polled ''LLM::alpha'' (PStr ''task-1'')]))"
proof -
  let ?w = "([PollData processing, PollData processing, PollData completed], []::event list)"
  let ?post = "poll_task (demo_backend []) ''LLM::alpha'' (PStr ''task-1'')"
  let ?pause = "asyncio_sleep (demo_backend [])"
  have rounds: "\<forall>i<Suc (Suc 0).
      terminal_payload (fst (?post ((next_round ?post ?pause ^^ i) ?w))) = None"
    by (simp add: less_Suc_eq demo_defs)
  have last: "terminal_payload
      (fst (?post ((next_round ?post ?pause ^^ Suc (Suc 0)) ?w))) = Some completed"
    by (simp add: demo_defs)
  from waiter_returns_first_terminal_payload
         [of "PollData completed" completed "Suc (Suc 0)" ?post ?pause ?w completed]
       rounds last
  have "wait_for_status ?post ?pause ?w
      = Some (completed, snd (?post ((next_round ?post ?pause ^^ Suc (Suc 0)) ?w)))"
    by blast
  then show ?thesis by (simp add: demo_backend_def next_round_def)
qed


section \<open>A gate that is false\<close>

text \<open>
  C8. An absent gate and an empty gate evaluate to true. A step whose gate evaluates
  to false is skipped: running the steps from it on, in any context and any world, is
  running the steps after it in the same context and the same world. Nothing is
  written, nothing is asked of the backend, no error is raised, and the next step is
  the next to run.
\<close>

theorem false_gate_skips_step:
  "evaluate_conditions h ctx None = Inr True
   \<and> evaluate_conditions h ctx (Some []) = Inr True
   \<and> (evaluate_conditions h ctx (step_if step) = Inr False
        \<longrightarrow> execute_steps be h ctx (step # steps) w = execute_steps be h ctx steps w)"
  by (simp add: evaluate_conditions_def)

text \<open>
  The second step of the example pipeline, in a context where \<open>suspicious_coef\<close> is 3:
  its gate asks for more than 5. The context comes back as it was and the backend's log
  stays empty.
\<close>

theorem false_gate_skips_step_witness:
  "evaluate_conditions demo_host
       [(''input'', PStr ''a log line''), (''suspicious_coef'', PInt 3), (''sec_risk'', PBool True)]
       (step_if expert_step) = Inr False
   \<and> execute_steps (demo_backend demo_capabilities) demo_host
       [(''input'', PStr ''a log line''), (''suspicious_coef'', PInt 3), (''sec_risk'', PBool True)]
       [expert_step] ([PollData completed], [])
     = Some (Inr [(''input'', PStr ''a log line''), (''suspicious_coef'', PInt 3),
                  (''sec_risk'', PBool True)],
             ([PollData completed], []))"
proof -
  let ?ctx = "[(''input'', PStr ''a log line''), (''suspicious_coef'', PInt 3),
               (''sec_risk'', PBool True)] :: int pydict"
  have gate: "evaluate_conditions demo_host ?ctx (step_if expert_step) = Inr False"
    by (simp add: expert_step_def evaluate_conditions_def base_result_def lookup_path_def
          ops_def num_cmp_def num_lt_def)
  from false_gate_skips_step [of demo_host ?ctx expert_step "demo_backend demo_capabilities"
         "[]" "([PollData completed], [])"] gate
  show ?thesis by simp
qed

section \<open>What the query sender returns\<close>

lemma demo_wait:
  "wait_for_status (poll_task (demo_backend caps) c t) (asyncio_sleep (demo_backend caps))
     (PollData completed # rs, log) = Some (completed, (rs, log @ [Polled c t]))"
  "wait_for_status (poll_task (demo_backend caps) c t) (asyncio_sleep (demo_backend caps))
     (PollData processing # rs, log)
   = wait_for_status (poll_task (demo_backend caps) c t) (asyncio_sleep (demo_backend caps))
       (rs, log @ [Polled c t, Paused 5])"
  by (subst wait_for_status.simps, simp add: demo_defs)+

text \<open>
  C5, as amended. When a dispatch succeeds (a capability is picked, the submission is
  accepted and carries a task id and a capability, the waiter returns a payload, and the
  payload has an \<open>output\<close>), \<open>QuerySender.execute\<close> returns the payload's \<open>output\<close>
  field. That is the mapping under which the content lies (\<open>output.message.content\<close>),
  not the content. The executor reads the content out of it: in a step with a message
  and with extraction rules, what the sender returned is indexed by \<open>message\<close> and then
  by \<open>content\<close>, and the step ends as \<open>_extract_data\<close> does on that content.
\<close>

theorem query_sender_returns_output:
  "(consider_model be model_requested lang w = (Inr (Some picked_model), w1)
      \<and> submit_task be picked_model system_message user_message (payload_json = Some True) w1
          = (Inr task, w2)
      \<and> task_waiter h task = Inr (encoded_capability, task_id)
      \<and> wait_for_status (poll_task be encoded_capability task_id) (asyncio_sleep be) w2
          = Some (result, w3)
      \<and> getitem result ''output'' = Inr output
    \<longrightarrow> query_sender_execute be h lang model_requested payload_json system_message
            user_message w
          = Some (Inr output, w3))
   \<and> (step_message step = Some m
      \<and> query_sender_execute be h (step_lang step)
            (case step_model step of None \<Rightarrow> [] | Some name \<Rightarrow> name) (step_json step)
            (substitute_variables h ctx (msg_system m))
            (substitute_variables h ctx (msg_user m)) w'
          = Some (Inr response, w'')
      \<and> given (step_extract step) \<noteq> []
      \<and> getitem response ''message'' = Inr msg
      \<and> getitem msg ''content'' = Inr content
    \<longrightarrow> execute_query_step be h ctx step w'
          = Some (extract_data h ctx content (given (step_extract step))
                    (step_json step = Some True), w''))"
  by (simp add: query_sender_execute_def execute_query_step_def)

text \<open>
  The second step of the example pipeline, dispatched with one \<open>processing\<close> response
  before the completed payload: the sender returns the payload's \<open>output\<close>, and the
  step stores the content found in it.
\<close>

theorem query_sender_returns_output_witness:
  "query_sender_execute (demo_backend demo_capabilities) demo_host
      None ''any/strong'' (Some False) ''You are a helpful assistant''
      ''You have got a log line: a log line. Explain.''
      ([PollData processing, PollData completed], [])
    = Some (Inr (PDict [(''message'',
               PDict [(''role'', PStr ''assistant''), (''content'', PStr ''looks fine'')])]),
            ([], [AskedCapabilities,
                  Submitted ''LLM::alpha'' ''You are a helpful assistant''
                    ''You have got a log line: a log line. Explain.'' False,
                  Polled ''LLM::alpha'' (PStr ''task-1''), Paused 5,
                  Polled ''LLM::alpha'' (PStr ''task-1'')]))
   \<and> execute_query_step (demo_backend demo_capabilities) demo_host
        [(''input'', PStr ''a log line'')] expert_step
        ([PollData processing, PollData completed], [])
    = Some (Inr [(''input'', PStr ''a log line''), (''expert_response'', PStr ''looks fine'')],
            ([], [AskedCapabilities,
                  Submitted ''LLM::alpha'' ''You are a helpful assistant''
                    ''You have got a log line: a log line. Explain.'' False,
                  Polled ''LLM::alpha'' (PStr ''task-1''), Paused 5,
                  Polled ''LLM::alpha'' (PStr ''task-1'')]))"
proof -
  let ?be = "demo_backend demo_capabilities"
  let ?sys = "''You are a helpful assistant''"
  let ?usr = "''You have got a log line: a log line. Explain.''"
  let ?ctx = "[(''input'', PStr ''a log line'')] :: int pydict"
  let ?w = "([PollData processing, PollData completed], []) :: world"
  let ?w1 = "([PollData processing, PollData completed], [AskedCapabilities]) :: world"
  let ?w2 = "([PollData processing, PollData completed], [AskedCapabilities,
     Submitted ''LLM::alpha'' ?sys ?usr False]) :: world"
  let ?w3 = "([], [AskedCapabilities, Submitted ''LLM::alpha'' ?sys ?usr False,
                  Polled ''LLM::alpha'' (PStr ''task-1''), Paused 5,
                  Polled ''LLM::alpha'' (PStr ''task-1'')]) :: world"
  let ?task = "PDict [(''id'', PDict [(''id'', PStr ''task-1''), (''cap'', PStr ''LLM::alpha'')])] :: int pyval"
  let ?msg = "PDict [(''role'', PStr ''assistant''), (''content'', PStr ''looks fine'')] :: int pyval"
  let ?out = "PDict [(''message'', ?msg)] :: int pyval"
  let ?m = "\<lparr> msg_system = ''You are a helpful assistant'',
               msg_user = ''You have got a log line: ${input}. Explain.'' \<rparr>"
  note facts = query_sender_returns_output
    [of ?be "''any/strong''" None ?w "''LLM::alpha''" ?w1 ?sys ?usr "Some False" ?task ?w2
        demo_host "''LLM::alpha''" "PStr ''task-1''" completed ?w3 ?out
        expert_step ?m ?ctx ?w ?out ?w3 ?msg "PStr ''looks fine''"]
  have picked: "consider_model ?be ''any/strong'' None ?w = (Inr (Some ''LLM::alpha''), ?w1)"
    by (simp add: consider_model_def usable_def demo_backend_fields demo_capabilities_def)
  have submitted: "submit_task ?be ''LLM::alpha'' ?sys ?usr (Some False = Some True) ?w1
      = (Inr ?task, ?w2)"
    by (simp add: demo_backend_fields)
  have target: "task_waiter demo_host ?task = Inr (''LLM::alpha'', PStr ''task-1'')"
    by (simp add: task_waiter_def qpart_def)
  have waited: "wait_for_status (poll_task ?be ''LLM::alpha'' (PStr ''task-1''))
      (asyncio_sleep ?be) ?w2 = Some (completed, ?w3)"
    by (simp add: demo_wait)
  have out: "getitem completed ''output'' = Inr ?out"
    by (simp add: completed_def)
  from facts [THEN conjunct1] picked submitted target waited out
  have sent: "query_sender_execute ?be demo_host None ''any/strong'' (Some False) ?sys ?usr ?w
      = Some (Inr ?out, ?w3)"
    by blast
  have message: "step_message expert_step = Some ?m"
    and lang: "step_lang expert_step = None"
    and model: "(case step_model expert_step of None \<Rightarrow> [] | Some name \<Rightarrow> name) = ''any/strong''"
    and json: "step_json expert_step = Some False"
    and rules: "given (step_extract expert_step)
                  = [\<lparr> rule_name = ''expert_response'', rule_jq = None,
                        rule_fulltext = Some True, rule_type = None \<rparr>]"
    by (simp_all add: expert_step_def)
  have sys: "substitute_variables demo_host ?ctx (msg_system ?m) = ?sys"
    and usr: "substitute_variables demo_host ?ctx (msg_user ?m) = ?usr"
    by (simp_all add: replace_match_def lookup_path_def py_str_def)
  have content: "getitem ?out ''message'' = Inr ?msg"
    "getitem ?msg ''content'' = Inr (PStr ''looks fine'')"
    by simp_all
  have "step_message expert_step = Some ?m
      \<and> query_sender_execute ?be demo_host (step_lang expert_step)
            (case step_model expert_step of None \<Rightarrow> [] | Some name \<Rightarrow> name)
            (step_json expert_step)
            (substitute_variables demo_host ?ctx (msg_system ?m))
            (substitute_variables demo_host ?ctx (msg_user ?m)) ?w
          = Some (Inr ?out, ?w3)
      \<and> given (step_extract expert_step) \<noteq> []
      \<and> getitem ?out ''message'' = Inr ?msg
      \<and> getitem ?msg ''content'' = Inr (PStr ''looks fine'')"
    unfolding lang model json sys usr rules using message sent content by simp
  with facts [THEN conjunct2]
  have "execute_query_step ?be demo_host ?ctx expert_step ?w
      = Some (extract_data demo_host ?ctx (PStr ''looks fine'')
                (given (step_extract expert_step)) (step_json expert_step = Some True), ?w3)"
    by blast
  then have stored: "execute_query_step ?be demo_host ?ctx expert_step ?w
      = Some (Inr [(''input'', PStr ''a log line''), (''expert_response'', PStr ''looks fine'')],
              ?w3)"
    by (simp add: rules json extract_data_def rule_value_def cast_type_def)
  from sent stored show ?thesis by (intro conjI)
qed

text \<open>
  The claim as stated fails: the content of the terminal payload is the text
  \<open>looks fine\<close>, and the sender returns the mapping that holds the message.
\<close>

theorem query_sender_content_counterexample:
  "lookup_path completed ''output.message.content'' = PStr ''looks fine''
   \<and> query_sender_execute (demo_backend demo_capabilities) demo_host
      (Some ''en'') ''any'' (Some True) ''You are a logs analyzer.'' ''Analyze this.''
      ([PollData completed], [])
    = Some (Inr (PDict [(''message'',
               PDict [(''role'', PStr ''assistant''), (''content'', PStr ''looks fine'')])]),
            ([], [AskedCapabilities,
                  Submitted ''LLM::alpha'' ''You are a logs analyzer.'' ''Analyze this.'' True,
                  Polled ''LLM::alpha'' (PStr ''task-1'')]))"
proof -
  have "lookup_path completed ''output.message.content'' = PStr ''looks fine''"
    by (simp add: lookup_path_def completed_def)
  moreover have "query_sender_execute (demo_backend demo_capabilities) demo_host
      (Some ''en'') ''any'' (Some True) ''You are a logs analyzer.'' ''Analyze this.''
      ([PollData completed], [])
    = Some (getitem completed ''output'', ([], [AskedCapabilities,
                  Submitted ''LLM::alpha'' ''You are a logs analyzer.'' ''Analyze this.'' True,
                  Polled ''LLM::alpha'' (PStr ''task-1'')]))"
    by (simp add: query_sender_execute_def consider_model_def usable_def demo_backend_fields
        demo_wait task_waiter_def qpart_def demo_capabilities_def)
  ultimately show ?thesis by (simp add: completed_def)
qed

section \<open>The model picker\<close>

lemma usable_first:
  "available = pre @ x # post \<Longrightarrow> startswith x ''LLM::''
   \<Longrightarrow> \<forall>y\<in>set pre. \<not> startswith y ''LLM::''
   \<Longrightarrow> usable available = x # usable post"
  by (simp add: usable_def)

lemma usable_none: "\<forall>y\<in>set available. \<not> startswith y ''LLM::'' \<Longrightarrow> usable available = []"
  by (simp add: usable_def)

text \<open>
  C6. Of the capabilities the backend advertises, the picker takes the first that starts
  with \<open>LLM::\<close>. When none does, the picker finds nothing, \<open>QuerySender.execute\<close>
  fails with \<open>NoCapabilityAvailable\<close> (the \<open>ValueError\<close> it raises) after that one
  request, and so does the run of the pipeline from any query step that is due: the steps
  after it are not run, whatever they are.
\<close>

theorem picker_takes_first_llm_or_fails:
  fixes be :: "('f, 'w) backend" and h :: "'f host"
  assumes "check_capabilities_online be w = (Inr available, w1)"
  shows "(\<forall>pre x post. available = pre @ x # post \<and> startswith x ''LLM::''
             \<and> (\<forall>y\<in>set pre. \<not> startswith y ''LLM::'')
           \<longrightarrow> consider_model be request lang w = (Inr (Some x), w1))
       \<and> ((\<forall>y\<in>set available. \<not> startswith y ''LLM::'')
           \<longrightarrow> consider_model be request lang w = (Inr None, w1)
             \<and> query_sender_execute be h lang request payload_json system_message user_message w
                 = Some (Inl (NoCapabilityAvailable request), w1)
             \<and> (\<forall>ctx step steps m. evaluate_conditions h ctx (step_if step) = Inr True
                   \<and> step_action step = ''query'' \<and> step_message step = Some m
                 \<longrightarrow> execute_steps be h ctx (step # steps) w
                       = Some (Inl (NoCapabilityAvailable
                                 (case step_model step of None \<Rightarrow> [] | Some name \<Rightarrow> name)), w1)))"
proof (intro conjI allI impI)
  fix pre x post
  assume "available = pre @ x # post \<and> startswith x ''LLM::''
             \<and> (\<forall>y\<in>set pre. \<not> startswith y ''LLM::'')"
  then have "usable available = x # usable post" by (simp add: usable_first)
  with assms show "consider_model be request lang w = (Inr (Some x), w1)"
    by (simp add: consider_model_def)
next
  assume none: "\<forall>y\<in>set available. \<not> startswith y ''LLM::''"
  with assms show picked: "consider_model be request lang w = (Inr None, w1)"
    by (simp add: consider_model_def usable_none)
  then show "query_sender_execute be h lang request payload_json system_message user_message w
                 = Some (Inl (NoCapabilityAvailable request), w1)"
    by (simp add: query_sender_execute_def)
next
  fix ctx and step :: "'f step" and steps m
  assume none: "\<forall>y\<in>set available. \<not> startswith y ''LLM::''"
  assume runs: "evaluate_conditions h ctx (step_if step) = Inr True
                   \<and> step_action step = ''query'' \<and> step_message step = Some m"
  from none assms have "\<And>r l. consider_model be r l w = (Inr None, w1)"
    by (simp add: consider_model_def usable_none)
  with runs show "execute_steps be h ctx (step # steps) w
                       = Some (Inl (NoCapabilityAvailable
                                 (case step_model step of None \<Rightarrow> [] | Some name \<Rightarrow> name)), w1)"
    by (simp add: execute_query_step_def query_sender_execute_def Let_def)
qed

text \<open>
  With \<open>EMBED::e5\<close>, \<open>LLM::alpha\<close>, \<open>LLM::beta\<close> advertised the picker takes
  \<open>LLM::alpha\<close>. With only \<open>EMBED::e5\<close> advertised the example pipeline fails at its
  first step, and the capabilities request is all the backend has seen.
\<close>

theorem picker_takes_first_llm_or_fails_witness:
  "consider_model (demo_backend demo_capabilities) ''any'' (Some ''en'') ([], [])
     = (Inr (Some ''LLM::alpha''), ([], [AskedCapabilities]))
   \<and> execute (demo_backend [''EMBED::e5'']) demo_host
        \<lparr> pipeline_name = ''logs'', pipeline_steps = [analyse_step, expert_step] \<rparr>
        (PStr ''a log line'') ([], [])
     = Some (Inl (NoCapabilityAvailable ''any''), ([], [AskedCapabilities]))"
proof -
  let ?w = "([], []) :: world" and ?w1 = "([], [AskedCapabilities]) :: world"
  have online: "check_capabilities_online (demo_backend demo_capabilities) ?w
                  = (Inr demo_capabilities, ?w1)"
    by (simp add: demo_backend_fields)
  have split: "demo_capabilities = [''EMBED::e5''] @ ''LLM::alpha'' # [''LLM::beta'']
      \<and> startswith ''LLM::alpha'' ''LLM::''
      \<and> (\<forall>y\<in>set [''EMBED::e5'']. \<not> startswith y ''LLM::'')"
    by (simp add: demo_capabilities_def)
  from picker_takes_first_llm_or_fails [OF online, of "''any''" "Some ''en''"] split
  have first: "consider_model (demo_backend demo_capabilities) ''any'' (Some ''en'') ?w
     = (Inr (Some ''LLM::alpha''), ?w1)"
    by blast
  have offline: "check_capabilities_online (demo_backend [''EMBED::e5'']) ?w
                  = (Inr [''EMBED::e5''], ?w1)"
    by (simp add: demo_backend_fields)
  have none: "\<forall>y\<in>set [''EMBED::e5'']. \<not> startswith y ''LLM::''"
    by simp
  have runs: "evaluate_conditions demo_host [(''input'', PStr ''a log line'')] (step_if analyse_step)
                = Inr True
              \<and> step_action analyse_step = ''query''
              \<and> step_message analyse_step = Some \<lparr> msg_system = ''You are a logs analyzer.'',
                              msg_user = ''Analyze log line: ${input}'' \<rparr>"
    by (simp add: analyse_step_def evaluate_conditions_def)
  from picker_takes_first_llm_or_fails [OF offline, of _ _ demo_host] none runs
  have "execute_steps (demo_backend [''EMBED::e5'']) demo_host [(''input'', PStr ''a log line'')]
          (analyse_step # [expert_step]) ?w
        = Some (Inl (NoCapabilityAvailable
                  (case step_model analyse_step of None \<Rightarrow> [] | Some name \<Rightarrow> name)), ?w1)"
    by blast
  then have "execute (demo_backend [''EMBED::e5'']) demo_host
        \<lparr> pipeline_name = ''logs'', pipeline_steps = [analyse_step, expert_step] \<rparr>
        (PStr ''a log line'') ?w
     = Some (Inl (NoCapabilityAvailable ''any''), ?w1)"
    by (simp add: execute_def analyse_step_def)
  with first show ?thesis by simp
qed

section \<open>Rules that yield no value\<close>

lemma map_of_dict_set:
  "map_of (dict_set k v kvs) k' = (if k' = k then Some v else map_of kvs k')"
  by (induction kvs) auto

lemma cast_type_keeps_value:
  "cast_type h v target_type = Inr v' \<Longrightarrow> v \<noteq> PNone \<Longrightarrow> v' \<noteq> PNone"
  by (auto simp: cast_type_def split: if_splits sum.splits error.splits)

lemma apply_rules_frame:
  "apply_rules h response d ctx rules = Inr ctx'
   \<Longrightarrow> \<forall>r\<in>set rules. rule_name r = k \<longrightarrow> rule_value response d r = PNone
   \<Longrightarrow> map_of ctx' k = map_of ctx k"
proof (induction rules arbitrary: ctx)
  case Nil
  then show ?case by simp
next
  case (Cons rule rules)
  show ?case
  proof (cases "rule_value response d rule = PNone")
    case True
    with Cons.prems have "apply_rules h response d ctx rules = Inr ctx'" by simp
    with Cons.IH Cons.prems(2) show ?thesis by simp
  next
    case False
    with Cons.prems(2) have other: "rule_name rule \<noteq> k" by auto
    from False Cons.prems(1) obtain v' where
      "apply_rules h response d (dict_set (rule_name rule) v' ctx) rules = Inr ctx'"
      by (auto simp: Let_def split: sum.splits)
    with Cons.IH Cons.prems(2) have "map_of ctx' k = map_of (dict_set (rule_name rule) v' ctx) k"
      by simp
    with other show ?thesis by (simp add: map_of_dict_set)
  qed
qed

lemma apply_rules_no_null:
  "apply_rules h response d ctx rules = Inr ctx' \<Longrightarrow> map_of ctx' k = Some PNone
   \<Longrightarrow> map_of ctx k = Some PNone"
proof (induction rules arbitrary: ctx)
  case Nil
  then show ?case by simp
next
  case (Cons rule rules)
  show ?case
  proof (cases "rule_value response d rule = PNone")
    case True
    with Cons show ?thesis by simp
  next
    case False
    with Cons.prems(1) obtain v' where
      cast: "cast_type h (rule_value response d rule) (rule_type rule) = Inr v'" and
      rest: "apply_rules h response d (dict_set (rule_name rule) v' ctx) rules = Inr ctx'"
      by (auto simp: Let_def split: sum.splits)
    from cast False have "v' \<noteq> PNone" by (rule cast_type_keeps_value)
    moreover from Cons.IH [OF rest Cons.prems(2)]
    have "map_of (dict_set (rule_name rule) v' ctx) k = Some PNone" .
    ultimately show ?thesis by (simp add: map_of_dict_set split: if_splits)
  qed
qed

lemma extract_data_cases:
  "extract_data h ctx response rules is_json_response = Inr ctx'
   \<Longrightarrow> ctx' = ctx
       \<or> apply_rules h response (data_to_parse h response is_json_response) ctx rules = Inr ctx'"
  by (auto simp: extract_data_def data_to_parse_def split: if_splits sum.splits error.splits)

text \<open>
  C9. A rule yields no value when \<open>fulltext\<close> is not set and either it has no path, or
  there is no parsed document (the step is not in JSON mode), or its path, other than
  \<open>.\<close>, does not resolve in the document. When every rule of a given name yields no
  value, the entry of the context under that name after \<open>_extract_data\<close> is the entry
  before it, present or not. And \<open>_extract_data\<close> never stores \<open>None\<close>: an entry that
  is \<open>None\<close> afterwards was \<open>None\<close> before.
\<close>

theorem extract_no_value_no_write:
  "(rule_fulltext rule \<noteq> Some True
      \<and> (rule_jq rule = None \<or> data_to_parse h response is_json_response = PNone
          \<or> (\<exists>jq. rule_jq rule = Some jq \<and> jq \<noteq> ''.''
                \<and> lookup_path (data_to_parse h response is_json_response)
                     (strip_char (CHR ''.'') jq) = PNone))
    \<longrightarrow> rule_value response (data_to_parse h response is_json_response) rule = PNone)
   \<and> (\<not> is_json_response \<longrightarrow> data_to_parse h response is_json_response = PNone)
   \<and> (extract_data h ctx response rules is_json_response = Inr ctx'
        \<and> (\<forall>r\<in>set rules. rule_name r = k
              \<longrightarrow> rule_value response (data_to_parse h response is_json_response) r = PNone)
      \<longrightarrow> map_of ctx' k = map_of ctx k)
   \<and> (extract_data h ctx response rules is_json_response = Inr ctx'
        \<and> map_of ctx' k = Some PNone
      \<longrightarrow> map_of ctx k = Some PNone)"
proof (intro conjI impI)
  assume "rule_fulltext rule \<noteq> Some True
      \<and> (rule_jq rule = None \<or> data_to_parse h response is_json_response = PNone
          \<or> (\<exists>jq. rule_jq rule = Some jq \<and> jq \<noteq> ''.''
                \<and> lookup_path (data_to_parse h response is_json_response)
                     (strip_char (CHR ''.'') jq) = PNone))"
  then show "rule_value response (data_to_parse h response is_json_response) rule = PNone"
    by (auto simp: rule_value_def split: option.splits)
next
  assume "\<not> is_json_response"
  then show "data_to_parse h response is_json_response = PNone"
    by (simp add: data_to_parse_def)
next
  assume a: "extract_data h ctx response rules is_json_response = Inr ctx'
        \<and> (\<forall>r\<in>set rules. rule_name r = k
              \<longrightarrow> rule_value response (data_to_parse h response is_json_response) r = PNone)"
  with extract_data_cases [of h ctx response rules is_json_response ctx']
  show "map_of ctx' k = map_of ctx k"
    by (auto dest: apply_rules_frame)
next
  assume a: "extract_data h ctx response rules is_json_response = Inr ctx'
        \<and> map_of ctx' k = Some PNone"
  with extract_data_cases [of h ctx response rules is_json_response ctx']
  show "map_of ctx k = Some PNone"
    by (auto dest: apply_rules_no_null)
qed

text \<open>
  The document \<open>{"foo": {"bar": 7}}\<close> has no \<open>foo.baz\<close>: the rule for \<open>score\<close>
  writes nothing and the entry \<open>score\<close> stays, while the rule for \<open>bar\<close> writes 7.
\<close>

lemma demo_loads: "json_loads demo_host foo_bar_text = Inr foo_bar"
proof -
  have "foo_bar_text \<noteq> deep_text"
    by (rule not_deep_text) (simp add: foo_bar_text_def)
  then show ?thesis by (simp add: demo_host_def demo_documents_def)
qed

theorem extract_no_value_no_write_witness:
  "data_to_parse demo_host (PStr foo_bar_text) True = foo_bar
   \<and> lookup_path foo_bar (strip_char (CHR ''.'') ''.foo.baz'') = PNone
   \<and> rule_value (PStr foo_bar_text) foo_bar score_rule = PNone
   \<and> extract_data demo_host [(''input'', PStr ''a log line''), (''score'', PInt 1)]
        (PStr foo_bar_text) [score_rule, bar_rule\<lparr>rule_jq := Some ''foo.bar''\<rparr>] True
      = Inr [(''input'', PStr ''a log line''), (''score'', PInt 1), (''bar'', PInt 7)]
   \<and> map_of [(''input'', PStr ''a log line''), (''score'', PInt 1), (''bar'', PInt 7 :: int pyval)]
        ''score''
      = map_of [(''input'', PStr ''a log line''), (''score'', PInt 1)] ''score''"
proof -
  let ?ctx = "[(''input'', PStr ''a log line''), (''score'', PInt 1)] :: int pydict"
  let ?ctx' = "[(''input'', PStr ''a log line''), (''score'', PInt 1), (''bar'', PInt 7)] :: int pydict"
  let ?rules = "[score_rule, bar_rule\<lparr>rule_jq := Some ''foo.bar''\<rparr>]"
  note facts = extract_no_value_no_write
    [of score_rule demo_host "PStr foo_bar_text" True ?ctx ?rules ?ctx' "''score''"]
  have parsed: "data_to_parse demo_host (PStr foo_bar_text) True = foo_bar"
    by (simp add: data_to_parse_def loads_def demo_loads)
  have missing: "lookup_path foo_bar (strip_char (CHR ''.'') ''.foo.baz'') = PNone"
    by (simp add: foo_bar_def strip_char_def lookup_path_def)
  have "rule_fulltext score_rule \<noteq> Some True
      \<and> (rule_jq score_rule = None \<or> data_to_parse demo_host (PStr foo_bar_text) True = PNone
          \<or> (\<exists>jq. rule_jq score_rule = Some jq \<and> jq \<noteq> ''.''
                \<and> lookup_path (data_to_parse demo_host (PStr foo_bar_text) True)
                     (strip_char (CHR ''.'') jq) = PNone))"
    using missing by (simp add: score_rule_def parsed)
  from facts [THEN conjunct1, rule_format, OF this] parsed
  have no_value: "rule_value (PStr foo_bar_text) foo_bar score_rule = PNone"
    by simp
  have found: "rule_value (PStr foo_bar_text) foo_bar (bar_rule\<lparr>rule_jq := Some ''foo.bar''\<rparr>) = PInt 7"
    by (simp add: rule_value_def bar_rule_def foo_bar_def strip_char_def lookup_path_def)
  have run: "extract_data demo_host ?ctx (PStr foo_bar_text) ?rules True = Inr ?ctx'"
    by (simp add: extract_data_def loads_def demo_loads)
       (simp add: cast_type_def bar_rule_def score_rule_def rule_value_def foo_bar_def
          strip_char_def lookup_path_def)
  have "\<forall>r\<in>set ?rules. rule_name r = ''score''
          \<longrightarrow> rule_value (PStr foo_bar_text) (data_to_parse demo_host (PStr foo_bar_text) True) r = PNone"
  proof (intro ballI impI)
    fix r
    assume "r \<in> set ?rules" and "rule_name r = ''score''"
    then have "r = score_rule" by (auto simp: bar_rule_def)
    with no_value parsed
    show "rule_value (PStr foo_bar_text) (data_to_parse demo_host (PStr foo_bar_text) True) r = PNone"
      by simp
  qed
  with run facts [THEN conjunct2, THEN conjunct2, THEN conjunct1]
  have "map_of ?ctx' ''score'' = map_of ?ctx ''score''"
    by blast
  with parsed missing no_value run show ?thesis by (intro conjI)
qed

section \<open>Dots around a path\<close>

lemma map_of_size:
  "map_of kvs key = Some (v :: 'f pyval) \<Longrightarrow> size v < size (PDict kvs)"
proof -
  assume "map_of kvs key = Some v"
  then have "(key, v) \<in> set kvs" by (rule map_of_SomeD)
  then have "size v < Suc (size_list (size_prod (\<lambda>_. 0) size) kvs)"
    by (induction kvs) auto
  then show ?thesis by simp
qed

lemma lookup_keys_smaller:
  "keys \<noteq> [] \<Longrightarrow> lookup_keys d keys = PNone \<or> size (lookup_keys d keys) < size d"
proof (induction keys arbitrary: d)
  case Nil
  then show ?case by simp
next
  case (Cons key keys)
  show ?case
  proof (cases d)
    case (PDict kvs)
    show ?thesis
    proof (cases "map_of kvs key")
      case None
      with PDict show ?thesis by simp
    next
      case (Some v)
      then have smaller: "size v < size d" using PDict by (simp only: map_of_size)
      show ?thesis
      proof (cases keys)
        case Nil
        with PDict Some smaller show ?thesis by simp
      next
        case (Cons key' keys')
        then have "lookup_keys v keys = PNone \<or> size (lookup_keys v keys) < size v"
          using Cons.IH by simp
        with smaller PDict Some show ?thesis by auto
      qed
    qed
  qed simp_all
qed

lemma split_on_not_empty: "split_on sep s \<noteq> []"
  by (induction s) (auto split: list.splits)

lemma lookup_path_proper: "d \<noteq> PNone \<Longrightarrow> lookup_path d path \<noteq> d"
  using lookup_keys_smaller [OF split_on_not_empty, of d "CHR ''.''" path]
  by (auto simp: lookup_path_def)

lemma strip_char_leading: "strip_char ch (ch # q) = strip_char ch q"
  by (simp add: strip_char_def)

lemma strip_char_trailing: "strip_char ch (q @ [ch]) = strip_char ch q"
proof (cases "\<forall>x\<in>set q. x = ch")
  case True
  then have all_dropped: "dropWhile (\<lambda>c. c = ch) q = []" by simp
  from True show ?thesis by (simp add: strip_char_def dropWhile_append all_dropped)
next
  case False
  then show ?thesis by (auto simp: strip_char_def dropWhile_append)
qed

lemma apply_rules_same_value:
  "rule_value response d r1 = rule_value response d r2 \<Longrightarrow> rule_name r1 = rule_name r2
   \<Longrightarrow> rule_type r1 = rule_type r2
   \<Longrightarrow> apply_rules h response d ctx (pre @ r1 # post)
       = apply_rules h response d ctx (pre @ r2 # post)"
  by (induction pre arbitrary: ctx) (simp_all add: Let_def split: sum.splits)

lemma extract_data_same_value:
  assumes "\<And>d. rule_value response d r1 = rule_value response d r2"
    and "rule_name r1 = rule_name r2" and "rule_type r1 = rule_type r2"
  shows "extract_data h ctx response (pre @ r1 # post) is_json_response
       = extract_data h ctx response (pre @ r2 # post) is_json_response"
proof -
  have "apply_rules h response d ctx (pre @ r1 # post)
          = apply_rules h response d ctx (pre @ r2 # post)" for d
    using assms by (intro apply_rules_same_value) simp_all
  then show ?thesis by (simp add: extract_data_def split: sum.splits error.splits)
qed

lemma rule_value_dots:
  assumes "q \<noteq> []" and "q \<noteq> ''.''"
  shows "rule_value response d (rule\<lparr>rule_jq := Some (CHR ''.'' # q)\<rparr>)
            = rule_value response d (rule\<lparr>rule_jq := Some q\<rparr>)"
    and "rule_value response d (rule\<lparr>rule_jq := Some (q @ ''.'')\<rparr>)
            = rule_value response d (rule\<lparr>rule_jq := Some q\<rparr>)"
  using assms by (simp_all add: rule_value_def strip_char_leading strip_char_trailing)

text \<open>
  C10. For a rule that is not \<open>fulltext\<close> and a parsed document, a path that is
  neither empty nor exactly \<open>.\<close> is looked up after its leading and trailing dots are
  stripped. So a path \<open>q\<close> (not empty, not \<open>.\<close>), \<open>.q\<close> and \<open>q.\<close> yield the same
  value and leave the same context, whatever the document, the name and the other
  rules. The rule yields the whole document exactly when its path is \<open>.\<close>. (A
  document that is \<open>null\<close> counts as no document: no rule reads it.)
\<close>

theorem jq_path_dots_stripped:
  "(rule_fulltext rule \<noteq> Some True \<and> rule_jq rule = Some jq \<and> jq \<noteq> [] \<and> jq \<noteq> ''.''
      \<and> d \<noteq> PNone
    \<longrightarrow> rule_value response d rule = lookup_path d (strip_char (CHR ''.'') jq))
   \<and> (q \<noteq> [] \<and> q \<noteq> ''.''
      \<longrightarrow> rule_value response d (rule\<lparr>rule_jq := Some (CHR ''.'' # q)\<rparr>)
            = rule_value response d (rule\<lparr>rule_jq := Some q\<rparr>)
        \<and> rule_value response d (rule\<lparr>rule_jq := Some (q @ ''.'')\<rparr>)
            = rule_value response d (rule\<lparr>rule_jq := Some q\<rparr>)
        \<and> extract_data h ctx response (pre @ rule\<lparr>rule_jq := Some (CHR ''.'' # q)\<rparr> # post)
              is_json_response
            = extract_data h ctx response (pre @ rule\<lparr>rule_jq := Some q\<rparr> # post)
                is_json_response
        \<and> extract_data h ctx response (pre @ rule\<lparr>rule_jq := Some (q @ ''.'')\<rparr> # post)
              is_json_response
            = extract_data h ctx response (pre @ rule\<lparr>rule_jq := Some q\<rparr> # post)
                is_json_response)
   \<and> (rule_fulltext rule \<noteq> Some True \<and> d \<noteq> PNone
      \<longrightarrow> (rule_value response d rule = d \<longleftrightarrow> rule_jq rule = Some ''.''))"
proof (intro conjI impI)
  assume "rule_fulltext rule \<noteq> Some True \<and> rule_jq rule = Some jq \<and> jq \<noteq> [] \<and> jq \<noteq> ''.''
      \<and> d \<noteq> PNone"
  then show "rule_value response d rule = lookup_path d (strip_char (CHR ''.'') jq)"
    by (simp add: rule_value_def)
next
  assume q: "q \<noteq> [] \<and> q \<noteq> ''.''"
  then show "rule_value response d (rule\<lparr>rule_jq := Some (CHR ''.'' # q)\<rparr>)
            = rule_value response d (rule\<lparr>rule_jq := Some q\<rparr>)"
    and "rule_value response d (rule\<lparr>rule_jq := Some (q @ ''.'')\<rparr>)
            = rule_value response d (rule\<lparr>rule_jq := Some q\<rparr>)"
    by (simp_all add: rule_value_dots)
  from q show "extract_data h ctx response (pre @ rule\<lparr>rule_jq := Some (CHR ''.'' # q)\<rparr> # post)
              is_json_response
            = extract_data h ctx response (pre @ rule\<lparr>rule_jq := Some q\<rparr> # post)
                is_json_response"
    by (intro extract_data_same_value) (simp_all add: rule_value_dots)
  from q show "extract_data h ctx response (pre @ rule\<lparr>rule_jq := Some (q @ ''.'')\<rparr> # post)
              is_json_response
            = extract_data h ctx response (pre @ rule\<lparr>rule_jq := Some q\<rparr> # post)
                is_json_response"
    by (intro extract_data_same_value) (simp_all add: rule_value_dots)
next
  assume "rule_fulltext rule \<noteq> Some True \<and> d \<noteq> PNone"
  then show "rule_value response d rule = d \<longleftrightarrow> rule_jq rule = Some ''.''"
    using lookup_path_proper [of d]
    by (auto simp: rule_value_def split: option.splits)
qed

text \<open>
  \<open>.foo.bar\<close>, \<open>foo.bar\<close> and \<open>foo.bar.\<close> all yield 7 in \<open>{"foo": {"bar": 7}}\<close>;
  \<open>.\<close> yields the document.
\<close>

theorem jq_path_dots_stripped_witness:
  "rule_value (PStr foo_bar_text) foo_bar (bar_rule\<lparr>rule_jq := Some ''.foo.bar''\<rparr>) = PInt 7
   \<and> rule_value (PStr foo_bar_text) foo_bar (bar_rule\<lparr>rule_jq := Some ''foo.bar''\<rparr>) = PInt 7
   \<and> rule_value (PStr foo_bar_text) foo_bar (bar_rule\<lparr>rule_jq := Some ''foo.bar.''\<rparr>) = PInt 7
   \<and> rule_value (PStr foo_bar_text) foo_bar (bar_rule\<lparr>rule_jq := Some ''.''\<rparr>) = foo_bar
   \<and> extract_data demo_host [(''input'', PStr ''a log line'')] (PStr foo_bar_text)
        [bar_rule\<lparr>rule_jq := Some ''.foo.bar''\<rparr>] True
      = Inr [(''input'', PStr ''a log line''), (''bar'', PInt 7)]
   \<and> extract_data demo_host [(''input'', PStr ''a log line'')] (PStr foo_bar_text)
        [bar_rule\<lparr>rule_jq := Some ''foo.bar''\<rparr>] True
      = Inr [(''input'', PStr ''a log line''), (''bar'', PInt 7)]
   \<and> extract_data demo_host [(''input'', PStr ''a log line'')] (PStr foo_bar_text)
        [bar_rule\<lparr>rule_jq := Some ''foo.bar.''\<rparr>] True
      = Inr [(''input'', PStr ''a log line''), (''bar'', PInt 7)]"
proof -
  let ?ctx = "[(''input'', PStr ''a log line'')] :: int pydict"
  have plain: "rule_value (PStr foo_bar_text) foo_bar (bar_rule\<lparr>rule_jq := Some ''foo.bar''\<rparr>) = PInt 7"
    by (simp add: rule_value_def bar_rule_def foo_bar_def strip_char_def lookup_path_def)
  have plain_extract: "extract_data demo_host ?ctx (PStr foo_bar_text)
        ([] @ bar_rule\<lparr>rule_jq := Some ''foo.bar''\<rparr> # []) True
      = Inr [(''input'', PStr ''a log line''), (''bar'', PInt 7)]"
    using plain by (simp add: extract_data_def loads_def demo_loads cast_type_def bar_rule_def foo_bar_def)
  have path: "''foo.bar'' \<noteq> [] \<and> ''foo.bar'' \<noteq> ''.''" by simp
  have whole: "rule_fulltext (bar_rule\<lparr>rule_jq := Some ''.''\<rparr>) \<noteq> Some True \<and> foo_bar \<noteq> PNone"
    by (simp add: bar_rule_def foo_bar_def)
  have dot: "rule_jq (bar_rule\<lparr>rule_jq := Some ''.''\<rparr>) = Some ''.''"
    by simp
  from jq_path_dots_stripped [of "bar_rule\<lparr>rule_jq := Some ''.''\<rparr>" _ foo_bar
         "PStr foo_bar_text", THEN conjunct2, THEN conjunct2, rule_format, OF whole] dot
  have all: "rule_value (PStr foo_bar_text) foo_bar (bar_rule\<lparr>rule_jq := Some ''.''\<rparr>) = foo_bar"
    by (rule iffD2)
  note dots = jq_path_dots_stripped [of bar_rule _ foo_bar "PStr foo_bar_text" "''foo.bar''"
         demo_host ?ctx "[]" "[]" True, THEN conjunct2, THEN conjunct1, rule_format, OF path]
  from dots plain
  have leading: "rule_value (PStr foo_bar_text) foo_bar (bar_rule\<lparr>rule_jq := Some ''.foo.bar''\<rparr>) = PInt 7"
    and trailing: "rule_value (PStr foo_bar_text) foo_bar (bar_rule\<lparr>rule_jq := Some ''foo.bar.''\<rparr>) = PInt 7"
    by simp_all
  from dots plain_extract
  have leading_extract: "extract_data demo_host ?ctx (PStr foo_bar_text)
        [bar_rule\<lparr>rule_jq := Some ''.foo.bar''\<rparr>] True
      = Inr [(''input'', PStr ''a log line''), (''bar'', PInt 7)]"
    and trailing_extract: "extract_data demo_host ?ctx (PStr foo_bar_text)
        [bar_rule\<lparr>rule_jq := Some ''foo.bar.''\<rparr>] True
      = Inr [(''input'', PStr ''a log line''), (''bar'', PInt 7)]"
    by simp_all
  from plain_extract have plain_extract': "extract_data demo_host ?ctx (PStr foo_bar_text)
        [bar_rule\<lparr>rule_jq := Some ''foo.bar''\<rparr>] True
      = Inr [(''input'', PStr ''a log line''), (''bar'', PInt 7)]"
    by simp
  from leading plain trailing all leading_extract plain_extract' trailing_extract
  show ?thesis by (intro conjI)
qed

section \<open>Substitution in one pass\<close>





















end
